theory Spec2Isabelle
  imports Complex_Main
begin

section \<open>The notebook heterogeneous-node-classification-with-hashgnn.ipynb\<close>

text \<open>
  The repository's source is one Jupyter notebook.  Its code cells are straight-line
  Python: they read four environment variables, open a client session, and then issue
  one call after another into the \<^verbatim>\<open>graphdatascience\<close> client library.
  The notebook is embedded cell by cell.  Python values, exceptions, the process
  environment, the standard output and the sequence of library calls are explicit.
\<close>

subsection \<open>Python values\<close>

text \<open>
  The literals the notebook passes as keyword arguments.  A float literal is kept as the
  decimal fraction written in the source (\<^verbatim>\<open>0.796\<close> is \<open>796 / 1000\<close>).
\<close>

datatype pyval =
    PNone
  | PBool bool
  | PInt int
  | PFloat rat
  | PStr string
  | PList "pyval list"
  | PTuple "pyval list"
  | PDict "(string \<times> pyval) list"

type_synonym kwargs = "(string \<times> pyval) list"

text \<open>A pandas Series is an ordered list of labelled values, a DataFrame a list of rows.\<close>

type_synonym series = "(string \<times> pyval) list"
type_synonym dataframe = "series list"

subsection \<open>Cell 51c1426e, first part: connection parameters from the environment\<close>

text \<open>
  \<^verbatim>\<open>os.environ\<close> is a dictionary from names to strings; \<^verbatim>\<open>os.environ.get(k)\<close>
  is \<^verbatim>\<open>None\<close> for a missing key and \<^verbatim>\<open>os.environ.get(k, d)\<close> is \<open>d\<close> then.
\<close>

type_synonym environ = "string \<rightharpoonup> string"

definition environ_get :: "environ \<Rightarrow> string \<Rightarrow> string option" where
  "environ_get env k = env k"

definition environ_get_default :: "environ \<Rightarrow> string \<Rightarrow> string \<Rightarrow> string" where
  "environ_get_default env k d = (case env k of None \<Rightarrow> d | Some v \<Rightarrow> v)"

text \<open>
  Truth value of an \<^verbatim>\<open>Optional[str]\<close> in a condition: \<^verbatim>\<open>None\<close> and the empty
  string are false, every other string is true.
\<close>

fun truthy :: "string option \<Rightarrow> bool" where
  "truthy None = False"
| "truthy (Some s) = (s \<noteq> [])"

text \<open>
  \<^verbatim>\<open>
  NEO4J_URI = os.environ.get("NEO4J_URI", "bolt://localhost:7687")
  NEO4J_AUTH = None
  NEO4J_DB = os.environ.get("NEO4J_DB", "neo4j")
  if os.environ.get("NEO4J_USER") and os.environ.get("NEO4J_PASSWORD"):
      NEO4J_AUTH = (
          os.environ.get("NEO4J_USER"),
          os.environ.get("NEO4J_PASSWORD"),
      )
  \<close>
\<close>

definition NEO4J_URI :: "environ \<Rightarrow> string" where
  "NEO4J_URI env = environ_get_default env ''NEO4J_URI'' ''bolt://localhost:7687''"

definition NEO4J_DB :: "environ \<Rightarrow> string" where
  "NEO4J_DB env = environ_get_default env ''NEO4J_DB'' ''neo4j''"

type_synonym auth = "(string option \<times> string option) option"

definition NEO4J_AUTH :: "environ \<Rightarrow> auth" where
  "NEO4J_AUTH env =
     (if truthy (environ_get env ''NEO4J_USER'') \<and> truthy (environ_get env ''NEO4J_PASSWORD'')
      then Some (environ_get env ''NEO4J_USER'', environ_get env ''NEO4J_PASSWORD'')
      else None)"

subsection \<open>Exceptions, the notebook's state and its statements\<close>

text \<open>
  An error a library call reports (the spec fixes no taxonomy: a connection error, a
  missing resource, or any other message of the server), and the exceptions a cell can
  end with: a failed \<^verbatim>\<open>assert\<close>, a missing key of a lookup, or the error of a
  library call, which no cell catches.
\<close>

datatype remote_error = ConnectionError | ResourceNotFound string | ServerError string

datatype error = AssertionError | KeyError string | RemoteError remote_error

text \<open>The objects the client library hands to the notebook.\<close>

datatype session = Session string auth string
datatype graph = Graph string
datatype pipeline = NCPipeline string
datatype model = NCModel string
datatype server_version = ServerVersion int int int

text \<open>The library calls of the notebook, with their arguments.\<close>

datatype call =
    GraphDataScience string auth string
  | Server_version session
  | Load_imdb session
  | Graph_str graph
  | Node_labels graph
  | Relationship_types graph
  | Node_properties graph
  | NodeClassification_create session string
  | ConfigureSplit pipeline kwargs
  | AddNodeProperty pipeline string kwargs
  | SelectFeatures pipeline "string list"
  | AddLogisticRegression pipeline kwargs
  | AddRandomForest pipeline kwargs
  | Train pipeline graph kwargs
  | Metrics model
  | Best_parameters model
  | Predict_stream model graph kwargs
  | Graph_drop graph
  | Pipeline_drop pipeline
  | Model_drop model

text \<open>
  The state a run threads through: the state of whatever answers the library calls, the
  log of the calls issued so far (the cell that issued each, the call, the error it
  reported if any), the printed output, and the cell being executed.
\<close>

record 's nbstate =
  server :: 's
  trace :: "(string \<times> call \<times> remote_error option) list"
  stdout :: "(string \<times> pyval) list"
  cur :: string

type_synonym ('s, 'a) py = "'s nbstate \<Rightarrow> (error + 'a) \<times> 's nbstate"

definition py_return :: "'a \<Rightarrow> ('s, 'a) py" where
  "py_return x s = (Inr x, s)"

definition py_raise :: "error \<Rightarrow> ('s, 'a) py" where
  "py_raise e s = (Inl e, s)"

text \<open>Sequencing: an exception of the first statement skips the rest.\<close>

definition py_bind :: "('s, 'a) py \<Rightarrow> ('a \<Rightarrow> ('s, 'b) py) \<Rightarrow> ('s, 'b) py" where
  "py_bind m f s = (case m s of (Inl e, s') \<Rightarrow> (Inl e, s') | (Inr x, s') \<Rightarrow> f x s')"

definition py_assert :: "bool \<Rightarrow> ('s, unit) py" where
  "py_assert b = (if b then py_return () else py_raise AssertionError)"

definition py_print :: "string \<Rightarrow> pyval \<Rightarrow> ('s, unit) py" where
  "py_print label v s = (Inr (), s\<lparr>stdout := stdout s @ [(label, v)]\<rparr>)"

text \<open>\<^verbatim>\<open>series[key]\<close>: the value under the label, \<^verbatim>\<open>KeyError\<close> when there is none.\<close>

definition series_getitem :: "series \<Rightarrow> string \<Rightarrow> ('s, pyval) py" where
  "series_getitem ser k =
     (case map_of ser k of None \<Rightarrow> py_raise (KeyError k) | Some v \<Rightarrow> py_return v)"

text \<open>\<^verbatim>\<open>DataFrame.head()\<close>: the first five rows.\<close>

definition head :: "dataframe \<Rightarrow> dataframe" where
  "head df = take 5 df"

text \<open>
  A library call: it is logged under the current cell, the answering party's state
  advances, and an error it reports is raised in the cell.
\<close>

type_synonym ('s, 'a) rpc = "'s \<Rightarrow> (remote_error + 'a) \<times> 's"

definition remote :: "call \<Rightarrow> ('s, 'a) rpc \<Rightarrow> ('s, 'a) py" where
  "remote c f s =
     (case f (server s) of
        (Inl e, t) \<Rightarrow>
          (Inl (RemoteError e), s\<lparr>server := t, trace := trace s @ [(cur s, c, Some e)]\<rparr>)
      | (Inr x, t) \<Rightarrow>
          (Inr x, s\<lparr>server := t, trace := trace s @ [(cur s, c, None)]\<rparr>))"

definition in_cell :: "string \<Rightarrow> ('s, 'a) py \<Rightarrow> ('s, 'a) py" where
  "in_cell c m s = m (s\<lparr>cur := c\<rparr>)"

subsection \<open>The client library as a parameter\<close>

text \<open>
  The notebook imports the \<^verbatim>\<open>graphdatascience\<close> package and talks through it to a
  server; it defines neither.  What each call answers is therefore a parameter of the
  notebook: one function per call, on a state of any type \<open>'s\<close>.
\<close>

record 's backend =
  b_GraphDataScience :: "string \<Rightarrow> auth \<Rightarrow> string \<Rightarrow> ('s, session) rpc"
  b_server_version :: "session \<Rightarrow> ('s, server_version) rpc"
  b_load_imdb :: "session \<Rightarrow> ('s, graph) rpc"
  b_graph_str :: "graph \<Rightarrow> ('s, string) rpc"
  b_node_labels :: "graph \<Rightarrow> ('s, string list) rpc"
  b_relationship_types :: "graph \<Rightarrow> ('s, string list) rpc"
  b_node_properties :: "graph \<Rightarrow> ('s, (string \<times> string list) list) rpc"
  b_nodeClassification_create :: "session \<Rightarrow> string \<Rightarrow> ('s, pipeline \<times> series) rpc"
  b_configureSplit :: "pipeline \<Rightarrow> kwargs \<Rightarrow> ('s, series) rpc"
  b_addNodeProperty :: "pipeline \<Rightarrow> string \<Rightarrow> kwargs \<Rightarrow> ('s, series) rpc"
  b_selectFeatures :: "pipeline \<Rightarrow> string list \<Rightarrow> ('s, series) rpc"
  b_addLogisticRegression :: "pipeline \<Rightarrow> kwargs \<Rightarrow> ('s, series) rpc"
  b_addRandomForest :: "pipeline \<Rightarrow> kwargs \<Rightarrow> ('s, series) rpc"
  b_train :: "pipeline \<Rightarrow> graph \<Rightarrow> kwargs \<Rightarrow> ('s, model \<times> series) rpc"
  b_metrics :: "model \<Rightarrow> ('s, series) rpc"
  b_best_parameters :: "model \<Rightarrow> ('s, series) rpc"
  b_predict_stream :: "model \<Rightarrow> graph \<Rightarrow> kwargs \<Rightarrow> ('s, dataframe) rpc"
  b_graph_drop :: "graph \<Rightarrow> ('s, series) rpc"
  b_pipeline_drop :: "pipeline \<Rightarrow> ('s, series) rpc"
  b_model_drop :: "model \<Rightarrow> ('s, series) rpc"

text \<open>Modelled from the spec: the order of \<^verbatim>\<open>ServerVersion\<close> objects, a class of
  the client library that the notebook only imports.  "A version at or above the asserted
  minimum" compares the major, then the minor, then the patch number.\<close>

fun sv_lt :: "server_version \<Rightarrow> server_version \<Rightarrow> bool" where
  "sv_lt (ServerVersion a b c) (ServerVersion x y z) =
     (a < x \<or> (a = x \<and> (b < y \<or> (b = y \<and> c < z))))"

definition sv_ge :: "server_version \<Rightarrow> server_version \<Rightarrow> bool" where
  "sv_ge v w = (\<not> sv_lt v w)"

subsection \<open>The calls as the notebook writes them\<close>

definition gds_connect :: "'s backend \<Rightarrow> string \<Rightarrow> auth \<Rightarrow> string \<Rightarrow> ('s, session) py" where
  "gds_connect B uri a db = remote (GraphDataScience uri a db) (b_GraphDataScience B uri a db)"

definition gds_server_version :: "'s backend \<Rightarrow> session \<Rightarrow> ('s, server_version) py" where
  "gds_server_version B gds = remote (Server_version gds) (b_server_version B gds)"

definition load_imdb :: "'s backend \<Rightarrow> session \<Rightarrow> ('s, graph) py" where
  "load_imdb B gds = remote (Load_imdb gds) (b_load_imdb B gds)"

definition graph_str :: "'s backend \<Rightarrow> graph \<Rightarrow> ('s, string) py" where
  "graph_str B G = remote (Graph_str G) (b_graph_str B G)"

definition node_labels :: "'s backend \<Rightarrow> graph \<Rightarrow> ('s, string list) py" where
  "node_labels B G = remote (Node_labels G) (b_node_labels B G)"

definition relationship_types :: "'s backend \<Rightarrow> graph \<Rightarrow> ('s, string list) py" where
  "relationship_types B G = remote (Relationship_types G) (b_relationship_types B G)"

definition node_properties :: "'s backend \<Rightarrow> graph \<Rightarrow> ('s, (string \<times> string list) list) py" where
  "node_properties B G = remote (Node_properties G) (b_node_properties B G)"

definition nodeClassification_create ::
  "'s backend \<Rightarrow> session \<Rightarrow> string \<Rightarrow> ('s, pipeline \<times> series) py" where
  "nodeClassification_create B gds name =
     remote (NodeClassification_create gds name) (b_nodeClassification_create B gds name)"

definition configureSplit :: "'s backend \<Rightarrow> pipeline \<Rightarrow> kwargs \<Rightarrow> ('s, series) py" where
  "configureSplit B pipe kw = remote (ConfigureSplit pipe kw) (b_configureSplit B pipe kw)"

definition addNodeProperty ::
  "'s backend \<Rightarrow> pipeline \<Rightarrow> string \<Rightarrow> kwargs \<Rightarrow> ('s, series) py" where
  "addNodeProperty B pipe algo kw =
     remote (AddNodeProperty pipe algo kw) (b_addNodeProperty B pipe algo kw)"

definition selectFeatures :: "'s backend \<Rightarrow> pipeline \<Rightarrow> string list \<Rightarrow> ('s, series) py" where
  "selectFeatures B pipe fs = remote (SelectFeatures pipe fs) (b_selectFeatures B pipe fs)"

definition addLogisticRegression :: "'s backend \<Rightarrow> pipeline \<Rightarrow> kwargs \<Rightarrow> ('s, series) py" where
  "addLogisticRegression B pipe kw =
     remote (AddLogisticRegression pipe kw) (b_addLogisticRegression B pipe kw)"

definition addRandomForest :: "'s backend \<Rightarrow> pipeline \<Rightarrow> kwargs \<Rightarrow> ('s, series) py" where
  "addRandomForest B pipe kw = remote (AddRandomForest pipe kw) (b_addRandomForest B pipe kw)"

definition train ::
  "'s backend \<Rightarrow> pipeline \<Rightarrow> graph \<Rightarrow> kwargs \<Rightarrow> ('s, model \<times> series) py" where
  "train B pipe G kw = remote (Train pipe G kw) (b_train B pipe G kw)"

definition metrics :: "'s backend \<Rightarrow> model \<Rightarrow> ('s, series) py" where
  "metrics B m = remote (Metrics m) (b_metrics B m)"

definition best_parameters :: "'s backend \<Rightarrow> model \<Rightarrow> ('s, series) py" where
  "best_parameters B m = remote (Best_parameters m) (b_best_parameters B m)"

definition predict_stream ::
  "'s backend \<Rightarrow> model \<Rightarrow> graph \<Rightarrow> kwargs \<Rightarrow> ('s, dataframe) py" where
  "predict_stream B m G kw = remote (Predict_stream m G kw) (b_predict_stream B m G kw)"

definition graph_drop :: "'s backend \<Rightarrow> graph \<Rightarrow> ('s, series) py" where
  "graph_drop B G = remote (Graph_drop G) (b_graph_drop B G)"

definition pipeline_drop :: "'s backend \<Rightarrow> pipeline \<Rightarrow> ('s, series) py" where
  "pipeline_drop B pipe = remote (Pipeline_drop pipe) (b_pipeline_drop B pipe)"

definition model_drop :: "'s backend \<Rightarrow> model \<Rightarrow> ('s, series) py" where
  "model_drop B m = remote (Model_drop m) (b_model_drop B m)"

subsection \<open>The code cells\<close>

text \<open>
  Each code cell is named by its id in the notebook file.  A cell takes the variables
  it reads and returns the variable it binds.  The first two cells install and import
  the package; they issue no call.
\<close>

definition cell_fb62e54d :: "('s, unit) py" where
  "cell_fb62e54d = py_return ()"

definition cell_1730fe57 :: "('s, unit) py" where
  "cell_1730fe57 = py_return ()"

text \<open>
  \<^verbatim>\<open>gds = GraphDataScience(NEO4J_URI, auth=NEO4J_AUTH, database=NEO4J_DB)\<close>
\<close>

definition cell_51c1426e :: "'s backend \<Rightarrow> environ \<Rightarrow> ('s, session) py" where
  "cell_51c1426e B env = gds_connect B (NEO4J_URI env) (NEO4J_AUTH env) (NEO4J_DB env)"

text \<open>
  \<^verbatim>\<open>assert gds.server_version() >= ServerVersion(2, 5, 0)\<close>
\<close>

definition cell_3c2a8de1 :: "'s backend \<Rightarrow> session \<Rightarrow> ('s, unit) py" where
  "cell_3c2a8de1 B gds =
     py_bind (gds_server_version B gds) (\<lambda>v. py_assert (sv_ge v (ServerVersion 2 5 0)))"

text \<open>
  \<^verbatim>\<open>G = gds.graph.load_imdb()\<close>
\<close>

definition cell_156843c3 :: "'s backend \<Rightarrow> session \<Rightarrow> ('s, graph) py" where
  "cell_156843c3 B gds = load_imdb B gds"

text \<open>
  \<^verbatim>\<open>
  print(f"Overview of G: {G}")
  print(f"Node labels in G: {G.node_labels()}")
  print(f"Relationship types in G: {G.relationship_types()}")
  \<close>
  Formatting \<open>G\<close> is a method of the handle like the other two.
\<close>

definition cell_478eaed5 :: "'s backend \<Rightarrow> graph \<Rightarrow> ('s, unit) py" where
  "cell_478eaed5 B G =
     py_bind (graph_str B G) (\<lambda>s.
     py_bind (py_print ''Overview of G: '' (PStr s)) (\<lambda>_.
     py_bind (node_labels B G) (\<lambda>ls.
     py_bind (py_print ''Node labels in G: '' (PList (map PStr ls))) (\<lambda>_.
     py_bind (relationship_types B G) (\<lambda>rs.
     py_print ''Relationship types in G: '' (PList (map PStr rs)))))))"

text \<open>
  \<^verbatim>\<open>print(f"Node properties per label:\n{G.node_properties()}")\<close>
\<close>

definition cell_095c5def :: "'s backend \<Rightarrow> graph \<Rightarrow> ('s, unit) py" where
  "cell_095c5def B G =
     py_bind (node_properties B G) (\<lambda>ps.
     py_print ''Node properties per label:'' (PDict (map (\<lambda>(l, p). (l, PList (map PStr p))) ps)))"

text \<open>
  \<^verbatim>\<open>pipe, _ = gds.beta.pipeline.nodeClassification.create("genre-predictor-pipe")\<close>
\<close>

definition cell_48d11361 :: "'s backend \<Rightarrow> session \<Rightarrow> ('s, pipeline) py" where
  "cell_48d11361 B gds =
     py_bind (nodeClassification_create B gds ''genre-predictor-pipe'') (\<lambda>(pipe, _).
     py_return pipe)"

text \<open>
  \<^verbatim>\<open>_ = pipe.configureSplit(testFraction=0.796)\<close>
\<close>

definition split_kwargs :: kwargs where
  "split_kwargs = [(''testFraction'', PFloat (796 / 1000))]"

definition cell_9aacdd72 :: "'s backend \<Rightarrow> pipeline \<Rightarrow> ('s, unit) py" where
  "cell_9aacdd72 B pipe = py_bind (configureSplit B pipe split_kwargs) (\<lambda>_. py_return ())"

text \<open>
  \<^verbatim>\<open>
  _ = pipe.addNodeProperty(
      "hashgnn",
      mutateProperty="embedding",
      iterations=4,
      heterogeneous=True,
      embeddingDensity=512,
      neighborInfluence=0.7,
      featureProperties=["plot_keywords"],
      randomSeed=41,
      contextNodeLabels=G.node_labels(),
  )
  \<close>
  The arguments are evaluated before the call, so \<^verbatim>\<open>G.node_labels()\<close> is asked first.
\<close>

definition hashgnn_kwargs :: "string list \<Rightarrow> kwargs" where
  "hashgnn_kwargs ls =
     [(''mutateProperty'', PStr ''embedding''),
      (''iterations'', PInt 4),
      (''heterogeneous'', PBool True),
      (''embeddingDensity'', PInt 512),
      (''neighborInfluence'', PFloat (7 / 10)),
      (''featureProperties'', PList [PStr ''plot_keywords'']),
      (''randomSeed'', PInt 41),
      (''contextNodeLabels'', PList (map PStr ls))]"

definition cell_5e254efe :: "'s backend \<Rightarrow> graph \<Rightarrow> pipeline \<Rightarrow> ('s, unit) py" where
  "cell_5e254efe B G pipe =
     py_bind (node_labels B G) (\<lambda>ls.
     py_bind (addNodeProperty B pipe ''hashgnn'' (hashgnn_kwargs ls)) (\<lambda>_.
     py_return ()))"

text \<open>
  \<^verbatim>\<open>_ = pipe.selectFeatures("embedding")\<close>
  The method takes one name or a list of names; one name selects that one feature.
\<close>

definition cell_30ff6713 :: "'s backend \<Rightarrow> pipeline \<Rightarrow> ('s, unit) py" where
  "cell_30ff6713 B pipe =
     py_bind (selectFeatures B pipe [''embedding'']) (\<lambda>_. py_return ())"

text \<open>
  \<^verbatim>\<open>_ = pipe.addLogisticRegression(penalty=(0.1, 1.0), maxEpochs=1000, patience=5,
     tolerance=0.0001, learningRate=0.01)\<close>
\<close>

definition logistic_regression_kwargs :: kwargs where
  "logistic_regression_kwargs =
     [(''penalty'', PTuple [PFloat (1 / 10), PFloat 1]),
      (''maxEpochs'', PInt 1000),
      (''patience'', PInt 5),
      (''tolerance'', PFloat (1 / 10000)),
      (''learningRate'', PFloat (1 / 100))]"

definition cell_8bccd326 :: "'s backend \<Rightarrow> pipeline \<Rightarrow> ('s, unit) py" where
  "cell_8bccd326 B pipe =
     py_bind (addLogisticRegression B pipe logistic_regression_kwargs) (\<lambda>_. py_return ())"

text \<open>
  \<^verbatim>\<open>_ = pipe.addRandomForest(minSplitSize=(2, 100), criterion="ENTROPY")\<close>
\<close>

definition random_forest_kwargs :: kwargs where
  "random_forest_kwargs =
     [(''minSplitSize'', PTuple [PInt 2, PInt 100]), (''criterion'', PStr ''ENTROPY'')]"

definition cell_62fca4ac :: "'s backend \<Rightarrow> pipeline \<Rightarrow> ('s, unit) py" where
  "cell_62fca4ac B pipe =
     py_bind (addRandomForest B pipe random_forest_kwargs) (\<lambda>_. py_return ())"

text \<open>
  \<^verbatim>\<open>
  model, _ = pipe.train(
      G,
      modelName="genre-predictor-model",
      targetNodeLabels=["Movie"],
      targetProperty="genre",
      metrics=["F1_MACRO"],
      randomSeed=42,
  )
  \<close>
\<close>

definition train_kwargs :: kwargs where
  "train_kwargs =
     [(''modelName'', PStr ''genre-predictor-model''),
      (''targetNodeLabels'', PList [PStr ''Movie'']),
      (''targetProperty'', PStr ''genre''),
      (''metrics'', PList [PStr ''F1_MACRO'']),
      (''randomSeed'', PInt 42)]"

definition cell_89b8ad98 :: "'s backend \<Rightarrow> graph \<Rightarrow> pipeline \<Rightarrow> ('s, model) py" where
  "cell_89b8ad98 B G pipe =
     py_bind (train B pipe G train_kwargs) (\<lambda>(model, _). py_return model)"

text \<open>
  \<^verbatim>\<open>print(f"Accuracy scores of trained model:\n{model.metrics()['F1_MACRO']}")\<close>
\<close>

definition cell_c9a4f264 :: "'s backend \<Rightarrow> model \<Rightarrow> ('s, unit) py" where
  "cell_c9a4f264 B model =
     py_bind (metrics B model) (\<lambda>ms.
     py_bind (series_getitem ms ''F1_MACRO'') (\<lambda>v.
     py_print ''Accuracy scores of trained model:'' v))"

text \<open>
  \<^verbatim>\<open>print(f"Winning ML algorithm candidate config:\n{model.best_parameters()}")\<close>
\<close>

definition cell_df73b21c :: "'s backend \<Rightarrow> model \<Rightarrow> ('s, unit) py" where
  "cell_df73b21c B model =
     py_bind (best_parameters B model) (\<lambda>bp.
     py_print ''Winning ML algorithm candidate config:'' (PDict bp))"

text \<open>
  \<^verbatim>\<open>
  predictions = model.predict_stream(G, targetNodeLabels=["UnclassifiedMovie"],
                                     includePredictedProbabilities=True)
  print(f"First predictions of unclassified movie nodes:\n{predictions.head()}")
  \<close>
\<close>

definition predict_kwargs :: kwargs where
  "predict_kwargs =
     [(''targetNodeLabels'', PList [PStr ''UnclassifiedMovie'']),
      (''includePredictedProbabilities'', PBool True)]"

definition cell_d4419924 :: "'s backend \<Rightarrow> graph \<Rightarrow> model \<Rightarrow> ('s, dataframe) py" where
  "cell_d4419924 B G model =
     py_bind (predict_stream B model G predict_kwargs) (\<lambda>predictions.
     py_bind (py_print ''First predictions of unclassified movie nodes:''
                (PList (map PDict (head predictions)))) (\<lambda>_.
     py_return predictions))"

text \<open>
  \<^verbatim>\<open>_ = G.drop()\<close>, \<^verbatim>\<open>_ = pipe.drop()\<close>, \<^verbatim>\<open>_ = model.drop()\<close>
\<close>

definition cell_9241d9ff :: "'s backend \<Rightarrow> graph \<Rightarrow> ('s, unit) py" where
  "cell_9241d9ff B G = py_bind (graph_drop B G) (\<lambda>_. py_return ())"

definition cell_94b96625 :: "'s backend \<Rightarrow> pipeline \<Rightarrow> ('s, unit) py" where
  "cell_94b96625 B pipe = py_bind (pipeline_drop B pipe) (\<lambda>_. py_return ())"

definition cell_a85e1799 :: "'s backend \<Rightarrow> model \<Rightarrow> ('s, unit) py" where
  "cell_a85e1799 B model = py_bind (model_drop B model) (\<lambda>_. py_return ())"

subsection \<open>The notebook: its sections and the run of all cells\<close>

text \<open>
  The sections follow the notebook's headings.  Each cell runs under its id, in the order
  of the file; a variable bound by one cell is passed to the cells that read it.
\<close>

definition session_setup :: "'s backend \<Rightarrow> environ \<Rightarrow> ('s, session) py" where
  "session_setup B env =
     py_bind (in_cell ''1730fe57'' cell_1730fe57) (\<lambda>_.
     py_bind (in_cell ''51c1426e'' (cell_51c1426e B env)) (\<lambda>gds.
     py_bind (in_cell ''3c2a8de1'' (cell_3c2a8de1 B gds)) (\<lambda>_.
     py_return gds)))"

definition loading :: "'s backend \<Rightarrow> session \<Rightarrow> ('s, graph) py" where
  "loading B gds =
     py_bind (in_cell ''156843c3'' (cell_156843c3 B gds)) (\<lambda>G.
     py_bind (in_cell ''478eaed5'' (cell_478eaed5 B G)) (\<lambda>_.
     py_bind (in_cell ''095c5def'' (cell_095c5def B G)) (\<lambda>_.
     py_return G)))"

definition configuring :: "'s backend \<Rightarrow> session \<Rightarrow> ('s, pipeline) py" where
  "configuring B gds =
     py_bind (in_cell ''48d11361'' (cell_48d11361 B gds)) (\<lambda>pipe.
     py_bind (in_cell ''9aacdd72'' (cell_9aacdd72 B pipe)) (\<lambda>_.
     py_return pipe))"

definition hashgnn_step :: "'s backend \<Rightarrow> graph \<Rightarrow> pipeline \<Rightarrow> ('s, unit) py" where
  "hashgnn_step B G pipe =
     py_bind (in_cell ''5e254efe'' (cell_5e254efe B G pipe)) (\<lambda>_.
     in_cell ''30ff6713'' (cell_30ff6713 B pipe))"

definition autotuning :: "'s backend \<Rightarrow> pipeline \<Rightarrow> ('s, unit) py" where
  "autotuning B pipe =
     py_bind (in_cell ''8bccd326'' (cell_8bccd326 B pipe)) (\<lambda>_.
     in_cell ''62fca4ac'' (cell_62fca4ac B pipe))"

definition training :: "'s backend \<Rightarrow> graph \<Rightarrow> pipeline \<Rightarrow> ('s, model) py" where
  "training B G pipe =
     py_bind (in_cell ''89b8ad98'' (cell_89b8ad98 B G pipe)) (\<lambda>model.
     py_bind (in_cell ''c9a4f264'' (cell_c9a4f264 B model)) (\<lambda>_.
     py_bind (in_cell ''df73b21c'' (cell_df73b21c B model)) (\<lambda>_.
     py_return model)))"

definition predicting :: "'s backend \<Rightarrow> graph \<Rightarrow> model \<Rightarrow> ('s, dataframe) py" where
  "predicting B G model = in_cell ''d4419924'' (cell_d4419924 B G model)"

definition cleaning_up :: "'s backend \<Rightarrow> graph \<Rightarrow> pipeline \<Rightarrow> model \<Rightarrow> ('s, unit) py" where
  "cleaning_up B G pipe model =
     py_bind (in_cell ''9241d9ff'' (cell_9241d9ff B G)) (\<lambda>_.
     py_bind (in_cell ''94b96625'' (cell_94b96625 B pipe)) (\<lambda>_.
     in_cell ''a85e1799'' (cell_a85e1799 B model)))"

definition notebook :: "'s backend \<Rightarrow> environ \<Rightarrow> ('s, unit) py" where
  "notebook B env =
     py_bind (in_cell ''fb62e54d'' cell_fb62e54d) (\<lambda>_.
     py_bind (session_setup B env) (\<lambda>gds.
     py_bind (loading B gds) (\<lambda>G.
     py_bind (configuring B gds) (\<lambda>pipe.
     py_bind (hashgnn_step B G pipe) (\<lambda>_.
     py_bind (autotuning B pipe) (\<lambda>_.
     py_bind (training B G pipe) (\<lambda>model.
     py_bind (predicting B G model) (\<lambda>_.
     cleaning_up B G pipe model))))))))"

text \<open>
  A run starts with nothing called and nothing printed.  It ends when the last cell is
  done, or at the first cell that raises, with that cell's id and the exception.
\<close>

datatype outcome = Completed | Failed string error

definition start :: "'s \<Rightarrow> 's nbstate" where
  "start s0 = \<lparr>server = s0, trace = [], stdout = [], cur = []\<rparr>"

definition finish :: "(error + 'a) \<times> 's nbstate \<Rightarrow> outcome \<times> 's nbstate" where
  "finish r = (case r of (Inl e, s) \<Rightarrow> (Failed (cur s) e, s) | (Inr _, s) \<Rightarrow> (Completed, s))"

definition run_all :: "'s backend \<Rightarrow> environ \<Rightarrow> 's \<Rightarrow> outcome \<times> 's nbstate" where
  "run_all B env s0 = finish (notebook B env (start s0))"

text \<open>
  Session establishment is the setup section: the constructor call and the assertion on
  the version the server reports.
\<close>

definition establish_session :: "'s backend \<Rightarrow> environ \<Rightarrow> 's \<Rightarrow> outcome \<times> 's nbstate" where
  "establish_session B env s0 = finish (session_setup B env (start s0))"

subsection \<open>The server-side catalog, from the specification\<close>

text \<open>Modelled from the spec: the graph, pipeline configuration and model entities of the
  data model (section 3), which live behind the client library.  A graph has its label set,
  its relationship types and the property names of each label; a pipeline configuration
  has its node-property steps, its selected features, its split and its candidate models;
  a model has the winner's parameters and its metric values.\<close>

record graph_info =
  g_labels :: "string list"
  g_relationship_types :: "string list"
  g_properties :: "(string \<times> string list) list"

record pipeline_info =
  p_steps :: "(string \<times> kwargs) list"
  p_features :: "string list"
  p_split :: kwargs
  p_candidates :: "(string \<times> kwargs) list"

record model_info =
  m_metrics :: series
  m_best_parameters :: series

text \<open>Modelled from the spec: the server.  It is reachable at some targets, reports a
  version, and holds the named graphs, pipelines and models.  Training and prediction
  are computed inside the server; they are two functions of the state about which nothing
  is assumed.\<close>

record gds_server =
  reachable_at :: "string \<Rightarrow> bool"
  version :: server_version
  graphs :: "string \<rightharpoonup> graph_info"
  pipelines :: "string \<rightharpoonup> pipeline_info"
  models :: "string \<rightharpoonup> model_info"
  trainer :: "graph_info \<Rightarrow> pipeline_info \<Rightarrow> kwargs \<Rightarrow> remote_error + model_info"
  predictor :: "model_info \<Rightarrow> graph_info \<Rightarrow> kwargs \<Rightarrow> remote_error + dataframe"

text \<open>Modelled from the spec: the example dataset the loader materializes (sections 3 and
  8, with the names the notebook's text gives): the classified label \<open>Movie\<close>, the
  unclassified label \<open>UnclassifiedMovie\<close>, the auxiliary labels \<open>Actor\<close> and
  \<open>Director\<close>; every node carries the feature vector \<open>plot_keywords\<close>, and the
  target attribute \<open>genre\<close> is present only on classified nodes.\<close>

definition imdb_graph :: graph_info where
  "imdb_graph =
     \<lparr>g_labels = [''Movie'', ''UnclassifiedMovie'', ''Actor'', ''Director''],
      g_relationship_types = [''ACTED_IN'', ''DIRECTED_IN''],
      g_properties =
        [(''Movie'', [''plot_keywords'', ''genre'']),
         (''UnclassifiedMovie'', [''plot_keywords'']),
         (''Actor'', [''plot_keywords'']),
         (''Director'', [''plot_keywords''])]\<rparr>"

definition empty_pipeline :: pipeline_info where
  "empty_pipeline = \<lparr>p_steps = [], p_features = [], p_split = [], p_candidates = []\<rparr>"

text \<open>Modelled from the spec: every call on a handle is a fresh round trip that looks the
  name up on the server (section 4.2); a name the catalog does not hold is a "resource
  not found" error (section 8).\<close>

definition with_graph ::
  "graph \<Rightarrow> (string \<Rightarrow> graph_info \<Rightarrow> (gds_server, 'a) rpc) \<Rightarrow> (gds_server, 'a) rpc" where
  "with_graph G f s =
     (case G of Graph n \<Rightarrow>
        (case graphs s n of None \<Rightarrow> (Inl (ResourceNotFound n), s) | Some g \<Rightarrow> f n g s))"

definition with_pipeline ::
  "pipeline \<Rightarrow> (string \<Rightarrow> pipeline_info \<Rightarrow> (gds_server, 'a) rpc) \<Rightarrow> (gds_server, 'a) rpc" where
  "with_pipeline pipe f s =
     (case pipe of NCPipeline n \<Rightarrow>
        (case pipelines s n of None \<Rightarrow> (Inl (ResourceNotFound n), s) | Some p \<Rightarrow> f n p s))"

definition with_model ::
  "model \<Rightarrow> (string \<Rightarrow> model_info \<Rightarrow> (gds_server, 'a) rpc) \<Rightarrow> (gds_server, 'a) rpc" where
  "with_model m f s =
     (case m of NCModel n \<Rightarrow>
        (case models s n of None \<Rightarrow> (Inl (ResourceNotFound n), s) | Some mi \<Rightarrow> f n mi s))"

text \<open>Modelled from the spec: the client session (section 4.1).  It fails with a
  connection error if the target is unreachable; the server reports its version.\<close>

definition srv_GraphDataScience :: "string \<Rightarrow> auth \<Rightarrow> string \<Rightarrow> (gds_server, session) rpc" where
  "srv_GraphDataScience uri a db s =
     (if reachable_at s uri then (Inr (Session uri a db), s) else (Inl ConnectionError, s))"

definition srv_server_version :: "session \<Rightarrow> (gds_server, server_version) rpc" where
  "srv_server_version gds s = (Inr (version s), s)"

text \<open>Modelled from the spec: the loader creates the named example graph and returns a
  handle to it; the introspection calls read the label set, the relationship types and
  the per-label property sets (section 6).\<close>

definition srv_load_imdb :: "session \<Rightarrow> (gds_server, graph) rpc" where
  "srv_load_imdb gds s = (Inr (Graph ''imdb''), s\<lparr>graphs := (graphs s)(''imdb'' \<mapsto> imdb_graph)\<rparr>)"

definition srv_graph_str :: "graph \<Rightarrow> (gds_server, string) rpc" where
  "srv_graph_str G = with_graph G (\<lambda>n g s. (Inr (''Graph('' @ n @ '')''), s))"

definition srv_node_labels :: "graph \<Rightarrow> (gds_server, string list) rpc" where
  "srv_node_labels G = with_graph G (\<lambda>n g s. (Inr (g_labels g), s))"

definition srv_relationship_types :: "graph \<Rightarrow> (gds_server, string list) rpc" where
  "srv_relationship_types G = with_graph G (\<lambda>n g s. (Inr (g_relationship_types g), s))"

definition srv_node_properties :: "graph \<Rightarrow> (gds_server, (string \<times> string list) list) rpc" where
  "srv_node_properties G = with_graph G (\<lambda>n g s. (Inr (g_properties g), s))"

text \<open>Modelled from the spec: a pipeline is created empty under its name and mutated by
  the configuration calls, each of which acknowledges (sections 3 and 4.3).\<close>

definition srv_nodeClassification_create ::
  "session \<Rightarrow> string \<Rightarrow> (gds_server, pipeline \<times> series) rpc" where
  "srv_nodeClassification_create gds name s =
     (Inr (NCPipeline name, [(''name'', PStr name)]),
      s\<lparr>pipelines := (pipelines s)(name \<mapsto> empty_pipeline)\<rparr>)"

definition update_pipeline ::
  "pipeline \<Rightarrow> (pipeline_info \<Rightarrow> pipeline_info) \<Rightarrow> (gds_server, series) rpc" where
  "update_pipeline pipe upd =
     with_pipeline pipe (\<lambda>n p s.
       (Inr [(''name'', PStr n)], s\<lparr>pipelines := (pipelines s)(n \<mapsto> upd p)\<rparr>))"

definition srv_configureSplit :: "pipeline \<Rightarrow> kwargs \<Rightarrow> (gds_server, series) rpc" where
  "srv_configureSplit pipe kw = update_pipeline pipe (\<lambda>p. p\<lparr>p_split := kw\<rparr>)"

definition srv_addNodeProperty :: "pipeline \<Rightarrow> string \<Rightarrow> kwargs \<Rightarrow> (gds_server, series) rpc" where
  "srv_addNodeProperty pipe algo kw =
     update_pipeline pipe (\<lambda>p. p\<lparr>p_steps := p_steps p @ [(algo, kw)]\<rparr>)"

definition srv_selectFeatures :: "pipeline \<Rightarrow> string list \<Rightarrow> (gds_server, series) rpc" where
  "srv_selectFeatures pipe fs =
     update_pipeline pipe (\<lambda>p. p\<lparr>p_features := p_features p @ fs\<rparr>)"

definition srv_addLogisticRegression :: "pipeline \<Rightarrow> kwargs \<Rightarrow> (gds_server, series) rpc" where
  "srv_addLogisticRegression pipe kw =
     update_pipeline pipe (\<lambda>p. p\<lparr>p_candidates := p_candidates p @ [(''LogisticRegression'', kw)]\<rparr>)"

definition srv_addRandomForest :: "pipeline \<Rightarrow> kwargs \<Rightarrow> (gds_server, series) rpc" where
  "srv_addRandomForest pipe kw =
     update_pipeline pipe (\<lambda>p. p\<lparr>p_candidates := p_candidates p @ [(''RandomForest'', kw)]\<rparr>)"

text \<open>Modelled from the spec: training reads the pipeline and the graph and, unless the
  server reports a failure, stores a model under the requested name and returns its
  handle with a summary; the model accessors and the streamed prediction read the model
  (sections 3, 4.3 and 6).\<close>

definition srv_train :: "pipeline \<Rightarrow> graph \<Rightarrow> kwargs \<Rightarrow> (gds_server, model \<times> series) rpc" where
  "srv_train pipe G kw =
     with_pipeline pipe (\<lambda>pn p.
     with_graph G (\<lambda>gn g s.
       (case map_of kw ''modelName'' of
          Some (PStr name) \<Rightarrow>
            (case trainer s g p kw of
               Inl e \<Rightarrow> (Inl e, s)
             | Inr mi \<Rightarrow>
                 (Inr (NCModel name, m_metrics mi), s\<lparr>models := (models s)(name \<mapsto> mi)\<rparr>))
        | _ \<Rightarrow> (Inl (ServerError ''modelName''), s))))"

definition srv_metrics :: "model \<Rightarrow> (gds_server, series) rpc" where
  "srv_metrics m = with_model m (\<lambda>n mi s. (Inr (m_metrics mi), s))"

definition srv_best_parameters :: "model \<Rightarrow> (gds_server, series) rpc" where
  "srv_best_parameters m = with_model m (\<lambda>n mi s. (Inr (m_best_parameters mi), s))"

definition srv_predict_stream :: "model \<Rightarrow> graph \<Rightarrow> kwargs \<Rightarrow> (gds_server, dataframe) rpc" where
  "srv_predict_stream m G kw =
     with_model m (\<lambda>mn mi.
     with_graph G (\<lambda>gn g s.
       (case predictor s mi g kw of Inl e \<Rightarrow> (Inl e, s) | Inr df \<Rightarrow> (Inr df, s))))"

text \<open>Modelled from the spec: the release calls destroy the named entity (section 3).\<close>

definition srv_graph_drop :: "graph \<Rightarrow> (gds_server, series) rpc" where
  "srv_graph_drop G =
     with_graph G (\<lambda>n g s. (Inr [(''graphName'', PStr n)], s\<lparr>graphs := (graphs s)(n := None)\<rparr>))"

definition srv_pipeline_drop :: "pipeline \<Rightarrow> (gds_server, series) rpc" where
  "srv_pipeline_drop pipe =
     with_pipeline pipe (\<lambda>n p s.
       (Inr [(''pipelineName'', PStr n)], s\<lparr>pipelines := (pipelines s)(n := None)\<rparr>))"

definition srv_model_drop :: "model \<Rightarrow> (gds_server, series) rpc" where
  "srv_model_drop m =
     with_model m (\<lambda>n mi s. (Inr [(''modelName'', PStr n)], s\<lparr>models := (models s)(n := None)\<rparr>))"

definition gds_backend :: "gds_server backend" where
  "gds_backend =
     \<lparr>b_GraphDataScience = srv_GraphDataScience,
      b_server_version = srv_server_version,
      b_load_imdb = srv_load_imdb,
      b_graph_str = srv_graph_str,
      b_node_labels = srv_node_labels,
      b_relationship_types = srv_relationship_types,
      b_node_properties = srv_node_properties,
      b_nodeClassification_create = srv_nodeClassification_create,
      b_configureSplit = srv_configureSplit,
      b_addNodeProperty = srv_addNodeProperty,
      b_selectFeatures = srv_selectFeatures,
      b_addLogisticRegression = srv_addLogisticRegression,
      b_addRandomForest = srv_addRandomForest,
      b_train = srv_train,
      b_metrics = srv_metrics,
      b_best_parameters = srv_best_parameters,
      b_predict_stream = srv_predict_stream,
      b_graph_drop = srv_graph_drop,
      b_pipeline_drop = srv_pipeline_drop,
      b_model_drop = srv_model_drop\<rparr>"

subsection \<open>Reading the log of calls\<close>

type_synonym entry = "string \<times> call \<times> remote_error option"

text \<open>A log in which no call reported an error.\<close>

definition ok_trace :: "entry list \<Rightarrow> bool" where
  "ok_trace t = list_all (\<lambda>x. snd (snd x) = None) t"

text \<open>
  What the notebook has configured on a pipeline handle so far: the features of its
  acknowledged feature-selection calls and the candidates of its acknowledged
  add-candidate calls, in the order of the calls.
\<close>

fun selects :: "pipeline \<Rightarrow> entry \<Rightarrow> string list" where
  "selects p (i, SelectFeatures q fs, None) = (if q = p then fs else [])"
| "selects p x = []"

definition selected_features :: "pipeline \<Rightarrow> entry list \<Rightarrow> string list" where
  "selected_features p t = concat (map (selects p) t)"

fun adds :: "pipeline \<Rightarrow> entry \<Rightarrow> (string \<times> kwargs) list" where
  "adds p (i, AddLogisticRegression q kw, None) =
     (if q = p then [(''LogisticRegression'', kw)] else [])"
| "adds p (i, AddRandomForest q kw, None) = (if q = p then [(''RandomForest'', kw)] else [])"
| "adds p x = []"

definition candidate_models :: "pipeline \<Rightarrow> entry list \<Rightarrow> (string \<times> kwargs) list" where
  "candidate_models p t = concat (map (adds p) t)"

fun is_train :: "call \<Rightarrow> bool" where
  "is_train (Train p g kw) = True"
| "is_train c = False"

definition calls :: "entry list \<Rightarrow> call list" where
  "calls t = map (\<lambda>x. fst (snd x)) t"

subsection \<open>Concrete servers and environments, for running the notebook\<close>

text \<open>
  A server at the default address, version 2.5.0, with an empty catalog.  Its trainer
  answers the values the notebook's text reports (logistic regression with penalty
  0.159748, test score 0.59118347); its predictor answers one row.
\<close>

definition demo_model :: model_info where
  "demo_model =
     \<lparr>m_metrics = [(''F1_MACRO'', PDict [(''test'', PFloat (59118347 / 100000000))])],
      m_best_parameters =
        [(''methodName'', PStr ''LogisticRegression''), (''penalty'', PFloat (159748 / 1000000))]\<rparr>"

definition demo_server :: "server_version \<Rightarrow> gds_server" where
  "demo_server v =
     \<lparr>reachable_at = (\<lambda>uri. uri = ''bolt://localhost:7687''),
      version = v,
      graphs = Map.empty,
      pipelines = Map.empty,
      models = Map.empty,
      trainer = (\<lambda>g p kw. Inr demo_model),
      predictor = (\<lambda>mi g kw. Inr [[(''nodeId'', PInt 0), (''predictedClass'', PInt 1)]])\<rparr>"

text \<open>The calls a complete run issues against that server, cell by cell.\<close>

definition demo_trace :: "entry list" where
  "demo_trace =
     (let gds = Session ''bolt://localhost:7687'' None ''neo4j'';
          G = Graph ''imdb'';
          pipe = NCPipeline ''genre-predictor-pipe'';
          model = NCModel ''genre-predictor-model''
      in [(''51c1426e'', GraphDataScience ''bolt://localhost:7687'' None ''neo4j'', None),
          (''3c2a8de1'', Server_version gds, None),
          (''156843c3'', Load_imdb gds, None),
          (''478eaed5'', Graph_str G, None),
          (''478eaed5'', Node_labels G, None),
          (''478eaed5'', Relationship_types G, None),
          (''095c5def'', Node_properties G, None),
          (''48d11361'', NodeClassification_create gds ''genre-predictor-pipe'', None),
          (''9aacdd72'', ConfigureSplit pipe split_kwargs, None),
          (''5e254efe'', Node_labels G, None),
          (''5e254efe'', AddNodeProperty pipe ''hashgnn''
             (hashgnn_kwargs [''Movie'', ''UnclassifiedMovie'', ''Actor'', ''Director'']), None),
          (''30ff6713'', SelectFeatures pipe [''embedding''], None),
          (''8bccd326'', AddLogisticRegression pipe logistic_regression_kwargs, None),
          (''62fca4ac'', AddRandomForest pipe random_forest_kwargs, None),
          (''89b8ad98'', Train pipe G train_kwargs, None),
          (''c9a4f264'', Metrics model, None),
          (''df73b21c'', Best_parameters model, None),
          (''d4419924'', Predict_stream model G predict_kwargs, None),
          (''9241d9ff'', Graph_drop G, None),
          (''94b96625'', Pipeline_drop pipe, None),
          (''a85e1799'', Model_drop model, None)])"

text \<open>The demonstration server with a trainer that reports a failure.\<close>

definition failing_server :: gds_server where
  "failing_server =
     (demo_server (ServerVersion 2 5 0))
       \<lparr>trainer := (\<lambda>g p kw. Inl (ServerError ''insufficient data''))\<rparr>"

text \<open>The demonstration server with a trainer whose model has no metric values.\<close>

definition no_metric_server :: gds_server where
  "no_metric_server =
     (demo_server (ServerVersion 2 5 0))
       \<lparr>trainer := (\<lambda>g p kw. Inr (demo_model\<lparr>m_metrics := []\<rparr>))\<rparr>"

text \<open>The demonstration server holding the graph, the pipeline and the model of the
  notebook, as it is before the release cells run.\<close>

definition loaded_server :: gds_server where
  "loaded_server =
     (demo_server (ServerVersion 2 5 0))
       \<lparr>graphs := [''imdb'' \<mapsto> imdb_graph],
        pipelines := [''genre-predictor-pipe'' \<mapsto> empty_pipeline],
        models := [''genre-predictor-model'' \<mapsto> demo_model]\<rparr>"

text \<open>Environments for running the notebook: the password set to the empty string;
  both credentials set to non-empty strings; the URI, the database name and the user set
  but no password.\<close>

definition env_empty_password :: environ where
  "env_empty_password = [''NEO4J_USER'' \<mapsto> ''neo4j'', ''NEO4J_PASSWORD'' \<mapsto> []]"

definition env_credentials :: environ where
  "env_credentials = [''NEO4J_USER'' \<mapsto> ''neo4j'', ''NEO4J_PASSWORD'' \<mapsto> ''secret'']"

definition env_no_password :: environ where
  "env_no_password =
     [''NEO4J_URI'' \<mapsto> ''neo4j://graph.example:7687'', ''NEO4J_DB'' \<mapsto> ''movies'',
      ''NEO4J_USER'' \<mapsto> ''neo4j'']"

subsection \<open>Predicates on statements and on logs\<close>

text \<open>
  What a statement adds to the log when it ends with result \<open>r\<close> in cell \<open>c\<close>: if the
  result is the error of a library call, that call is the last entry and the only one
  with an error; otherwise no entry has an error.
\<close>

definition cell_ok :: "string \<Rightarrow> (error + 'a) \<Rightarrow> entry list \<Rightarrow> bool" where
  "cell_ok c r new =
     (case r of
        Inl (RemoteError e) \<Rightarrow> (\<exists>t call. new = t @ [(c, call, Some e)] \<and> ok_trace t)
      | _ \<Rightarrow> ok_trace new)"

text \<open>A statement of a cell: it stays in its cell, only appends to the log, and what it
  appends is as above.\<close>

definition propagates :: "('s, 'a) py \<Rightarrow> bool" where
  "propagates m =
     (\<forall>s. cur (snd (m s)) = cur s \<and>
          (\<exists>new. trace (snd (m s)) = trace s @ new \<and> cell_ok (cur s) (fst (m s)) new))"

text \<open>The same for a sequence of cells, on the whole log.\<close>

definition run_ok :: "(error + 'a) \<times> 's nbstate \<Rightarrow> bool" where
  "run_ok r =
     (case r of
        (Inl (RemoteError e), s) \<Rightarrow>
          (\<exists>t call. trace s = t @ [(cur s, call, Some e)] \<and> ok_trace t)
      | (_, s) \<Rightarrow> ok_trace (trace s))"

definition nb_propagates :: "('s, 'a) py \<Rightarrow> bool" where
  "nb_propagates m = (\<forall>s. ok_trace (trace s) \<longrightarrow> run_ok (m s))"

text \<open>Where an exception that is not the error of a library call can come from.\<close>

definition never_raises :: "error \<Rightarrow> ('s, 'a) py \<Rightarrow> bool" where
  "never_raises e m = (\<forall>s. fst (m s) \<noteq> Inl e)"

definition raises_in :: "error \<Rightarrow> string \<Rightarrow> ('s, 'a) py \<Rightarrow> bool" where
  "raises_in e c m = (\<forall>s. fst (m s) = Inl e \<longrightarrow> cur (snd (m s)) = c)"

text \<open>Logs and statements without a training call.\<close>

definition no_train :: "entry list \<Rightarrow> bool" where
  "no_train t = list_all (\<lambda>x. \<not> is_train (fst (snd x))) t"

definition train_free :: "('s, 'a) py \<Rightarrow> bool" where
  "train_free m = (\<forall>s. \<exists>new. trace (snd (m s)) = trace s @ new \<and> no_train new)"

text \<open>
  The acknowledged configuration calls of the notebook on a pipeline handle: the feature
  selection of cell 30ff6713 and the two candidates of cells 8bccd326 and 62fca4ac.
\<close>

definition selected :: "pipeline \<Rightarrow> entry list \<Rightarrow> bool" where
  "selected p t = ((''30ff6713'', SelectFeatures p [''embedding''], None) \<in> set t)"

definition has_lr :: "pipeline \<Rightarrow> entry list \<Rightarrow> bool" where
  "has_lr p t =
     ((''8bccd326'', AddLogisticRegression p logistic_regression_kwargs, None) \<in> set t)"

definition has_rf :: "pipeline \<Rightarrow> entry list \<Rightarrow> bool" where
  "has_rf p t = ((''62fca4ac'', AddRandomForest p random_forest_kwargs, None) \<in> set t)"

definition configured :: "pipeline \<Rightarrow> entry list \<Rightarrow> bool" where
  "configured p t = (selected p t \<and> has_lr p t \<and> has_rf p t)"

text \<open>A log in which every training call comes after the configuration of its pipeline.\<close>

definition train_guarded :: "entry list \<Rightarrow> bool" where
  "train_guarded t =
     (\<forall>t1 i p g kw r t2. t = t1 @ (i, Train p g kw, r) # t2 \<longrightarrow> configured p t1)"

text \<open>
  A statement run from a state satisfying \<open>P\<close>: if it raises, the log is still guarded;
  if it returns \<open>x\<close>, the state satisfies \<open>Q x\<close>.
\<close>

definition maintains ::
  "('s nbstate \<Rightarrow> bool) \<Rightarrow> ('s, 'a) py \<Rightarrow> ('a \<Rightarrow> 's nbstate \<Rightarrow> bool) \<Rightarrow> bool" where
  "maintains P m Q =
     (\<forall>s. P s \<longrightarrow>
        (case m s of (Inl e, s') \<Rightarrow> train_guarded (trace s') | (Inr x, s') \<Rightarrow> Q x s'))"

text \<open>
  The notebook at the training call: the cells before cell 89b8ad98, which bind the graph
  and the pipeline handle, and the cells from cell 89b8ad98 on.  The notebook is the first
  part followed by the second (lemma \<open>notebook_split\<close> below).
\<close>

definition before_training :: "'s backend \<Rightarrow> environ \<Rightarrow> ('s, graph \<times> pipeline) py" where
  "before_training B env =
     py_bind (in_cell ''fb62e54d'' cell_fb62e54d) (\<lambda>_.
     py_bind (session_setup B env) (\<lambda>gds.
     py_bind (loading B gds) (\<lambda>G.
     py_bind (configuring B gds) (\<lambda>pipe.
     py_bind (hashgnn_step B G pipe) (\<lambda>_.
     py_bind (autotuning B pipe) (\<lambda>_.
     py_return (G, pipe)))))))"

definition from_training :: "'s backend \<Rightarrow> graph \<Rightarrow> pipeline \<Rightarrow> ('s, unit) py" where
  "from_training B G pipe =
     py_bind (training B G pipe) (\<lambda>model.
     py_bind (predicting B G model) (\<lambda>_.
     cleaning_up B G pipe model))"

text \<open>The error a library call reported, as the log records it.\<close>

definition call_error :: "remote_error + 'a \<Rightarrow> remote_error option" where
  "call_error r = (case r of Inl e \<Rightarrow> Some e | Inr x \<Rightarrow> None)"

section \<open>Properties\<close>

subsection \<open>Evaluation rules\<close>

lemmas py_defs =
  py_bind_def py_return_def py_raise_def py_assert_def py_print_def remote_def in_cell_def
  series_getitem_def

lemmas call_defs =
  gds_connect_def gds_server_version_def load_imdb_def graph_str_def node_labels_def
  relationship_types_def node_properties_def nodeClassification_create_def configureSplit_def
  addNodeProperty_def selectFeatures_def addLogisticRegression_def addRandomForest_def train_def
  metrics_def best_parameters_def predict_stream_def graph_drop_def pipeline_drop_def
  model_drop_def

lemmas environ_defs =
  NEO4J_URI_def NEO4J_DB_def NEO4J_AUTH_def environ_get_def environ_get_default_def

lemmas cell_defs =
  cell_fb62e54d_def cell_1730fe57_def cell_51c1426e_def cell_3c2a8de1_def cell_156843c3_def
  cell_478eaed5_def cell_095c5def_def cell_48d11361_def cell_9aacdd72_def cell_5e254efe_def
  cell_30ff6713_def cell_8bccd326_def cell_62fca4ac_def cell_89b8ad98_def cell_c9a4f264_def
  cell_df73b21c_def cell_d4419924_def cell_9241d9ff_def cell_94b96625_def cell_a85e1799_def

lemmas section_defs =
  session_setup_def loading_def configuring_def hashgnn_step_def autotuning_def training_def
  predicting_def cleaning_up_def

lemmas srv_defs =
  gds_backend_def srv_GraphDataScience_def srv_server_version_def srv_load_imdb_def
  srv_graph_str_def srv_node_labels_def srv_relationship_types_def srv_node_properties_def
  srv_nodeClassification_create_def update_pipeline_def srv_configureSplit_def
  srv_addNodeProperty_def srv_selectFeatures_def srv_addLogisticRegression_def
  srv_addRandomForest_def srv_train_def srv_metrics_def srv_best_parameters_def
  srv_predict_stream_def srv_graph_drop_def srv_pipeline_drop_def srv_model_drop_def
  with_graph_def with_pipeline_def with_model_def

lemmas run_defs =
  run_all_def establish_session_def finish_def start_def notebook_def section_defs cell_defs
  call_defs py_defs environ_defs srv_defs demo_server_def split_kwargs_def hashgnn_kwargs_def
  logistic_regression_kwargs_def random_forest_kwargs_def train_kwargs_def predict_kwargs_def
  head_def imdb_graph_def empty_pipeline_def sv_ge_def demo_model_def

subsection \<open>Connection parameters\<close>

lemma truthy_iff: "truthy x \<longleftrightarrow> (\<exists>v. x = Some v \<and> v \<noteq> [])"
  by (cases x) simp_all

lemma cell_51c1426e_call:
  "calls (trace (snd (cell_51c1426e B env s))) =
     calls (trace s) @ [GraphDataScience (NEO4J_URI env) (NEO4J_AUTH env) (NEO4J_DB env)]"
  by (simp add: cell_51c1426e_def gds_connect_def remote_def calls_def split: prod.splits sum.splits)

text \<open>
  C3, as the spec states it, fails: with \<^verbatim>\<open>NEO4J_USER=neo4j\<close> and \<^verbatim>\<open>NEO4J_PASSWORD\<close>
  set to the empty string both variables are set, yet the condition of the \<^verbatim>\<open>if\<close>
  tests their truth values, the empty string is false, and \<^verbatim>\<open>NEO4J_AUTH\<close> stays
  \<^verbatim>\<open>None\<close>.
\<close>

theorem C3_empty_password_counterexample:
  "env_empty_password ''NEO4J_USER'' = Some ''neo4j'' \<and>
   env_empty_password ''NEO4J_PASSWORD'' = Some [] \<and>
   NEO4J_AUTH env_empty_password = None \<and>
   calls (trace (snd (cell_51c1426e gds_backend env_empty_password
                        (start (demo_server (ServerVersion 2 5 0)))))) =
     [GraphDataScience ''bolt://localhost:7687'' None ''neo4j'']"
  by (simp add: env_empty_password_def environ_defs cell_51c1426e_def gds_connect_def
      remote_def gds_backend_def srv_GraphDataScience_def demo_server_def start_def calls_def)

text \<open>
  C3 (amended): the server URI is \<^verbatim>\<open>bolt://localhost:7687\<close> when \<^verbatim>\<open>NEO4J_URI\<close> is
  unset and the variable's value otherwise; the database name is \<^verbatim>\<open>neo4j\<close> when
  \<^verbatim>\<open>NEO4J_DB\<close> is unset and the variable's value otherwise; the credential pair is
  passed if and only if \<^verbatim>\<open>NEO4J_USER\<close> and \<^verbatim>\<open>NEO4J_PASSWORD\<close> are both set to
  non-empty strings, and it is then the pair of their values; when either is unset or
  empty, auth is \<^verbatim>\<open>None\<close>.  The session constructor is called with exactly these three
  values.
\<close>

theorem C3_connection_parameters:
  "(env ''NEO4J_URI'' = None \<longrightarrow> NEO4J_URI env = ''bolt://localhost:7687'') \<and>
   (\<forall>u. env ''NEO4J_URI'' = Some u \<longrightarrow> NEO4J_URI env = u) \<and>
   (env ''NEO4J_DB'' = None \<longrightarrow> NEO4J_DB env = ''neo4j'') \<and>
   (\<forall>d. env ''NEO4J_DB'' = Some d \<longrightarrow> NEO4J_DB env = d) \<and>
   (\<forall>u p. env ''NEO4J_USER'' = Some u \<and> u \<noteq> [] \<and> env ''NEO4J_PASSWORD'' = Some p \<and> p \<noteq> []
      \<longrightarrow> NEO4J_AUTH env = Some (Some u, Some p)) \<and>
   (\<not> (\<exists>u p. env ''NEO4J_USER'' = Some u \<and> u \<noteq> [] \<and> env ''NEO4J_PASSWORD'' = Some p \<and> p \<noteq> [])
      \<longrightarrow> NEO4J_AUTH env = None) \<and>
   calls (trace (snd (cell_51c1426e B env s))) =
     calls (trace s) @ [GraphDataScience (NEO4J_URI env) (NEO4J_AUTH env) (NEO4J_DB env)]"
proof -
  have uri: "NEO4J_URI env = (case env ''NEO4J_URI'' of None \<Rightarrow> ''bolt://localhost:7687'' | Some u \<Rightarrow> u)"
    by (simp add: environ_defs)
  have db: "NEO4J_DB env = (case env ''NEO4J_DB'' of None \<Rightarrow> ''neo4j'' | Some d \<Rightarrow> d)"
    by (simp add: environ_defs)
  have auth_set:
    "NEO4J_AUTH env = Some (Some u, Some p)"
    if "env ''NEO4J_USER'' = Some u" "u \<noteq> []" "env ''NEO4J_PASSWORD'' = Some p" "p \<noteq> []" for u p
    using that by (simp add: NEO4J_AUTH_def environ_get_def)
  have auth_unset: "NEO4J_AUTH env = None"
    if "\<not> (\<exists>u p. env ''NEO4J_USER'' = Some u \<and> u \<noteq> [] \<and> env ''NEO4J_PASSWORD'' = Some p \<and> p \<noteq> [])"
    using that by (auto simp: NEO4J_AUTH_def environ_get_def truthy_iff)
  show ?thesis
    using uri db auth_set auth_unset cell_51c1426e_call [of B env s] by simp
qed

text \<open>
  The amended C3 at two environments: one with both credentials set and neither URI nor
  database name, one with URI, database name and user set and no password.
\<close>

theorem C3_connection_parameters_witness:
  "env_credentials ''NEO4J_URI'' = None \<and>
   NEO4J_URI env_credentials = ''bolt://localhost:7687'' \<and>
   env_credentials ''NEO4J_DB'' = None \<and>
   NEO4J_DB env_credentials = ''neo4j'' \<and>
   env_credentials ''NEO4J_USER'' = Some ''neo4j'' \<and>
   env_credentials ''NEO4J_PASSWORD'' = Some ''secret'' \<and>
   NEO4J_AUTH env_credentials = Some (Some ''neo4j'', Some ''secret'') \<and>
   env_no_password ''NEO4J_URI'' = Some ''neo4j://graph.example:7687'' \<and>
   NEO4J_URI env_no_password = ''neo4j://graph.example:7687'' \<and>
   env_no_password ''NEO4J_DB'' = Some ''movies'' \<and>
   NEO4J_DB env_no_password = ''movies'' \<and>
   env_no_password ''NEO4J_PASSWORD'' = None \<and>
   NEO4J_AUTH env_no_password = None"
proof -
  have e: "env_credentials ''NEO4J_URI'' = None" "env_credentials ''NEO4J_DB'' = None"
    "env_credentials ''NEO4J_USER'' = Some ''neo4j''"
    "env_credentials ''NEO4J_PASSWORD'' = Some ''secret''"
    by (simp_all add: env_credentials_def)
  have n: "env_no_password ''NEO4J_URI'' = Some ''neo4j://graph.example:7687''"
    "env_no_password ''NEO4J_DB'' = Some ''movies''"
    "env_no_password ''NEO4J_PASSWORD'' = None"
    by (simp_all add: env_no_password_def)
  note t = C3_connection_parameters
    [where env = env_credentials and B = gds_backend
       and s = "start (demo_server (ServerVersion 2 5 0))"]
  note u = C3_connection_parameters
    [where env = env_no_password and B = gds_backend
       and s = "start (demo_server (ServerVersion 2 5 0))"]
  from e t have "NEO4J_URI env_credentials = ''bolt://localhost:7687''"
    "NEO4J_DB env_credentials = ''neo4j''"
    "NEO4J_AUTH env_credentials = Some (Some ''neo4j'', Some ''secret'')"
    by simp_all
  moreover from n u have "NEO4J_URI env_no_password = ''neo4j://graph.example:7687''"
    "NEO4J_DB env_no_password = ''movies''" "NEO4J_AUTH env_no_password = None"
    by simp_all
  ultimately show ?thesis using e n by simp
qed

subsection \<open>Errors of library calls are not caught\<close>

lemma ok_trace_simps [simp]:
  "ok_trace []"
  "ok_trace (t @ u) \<longleftrightarrow> ok_trace t \<and> ok_trace u"
  "ok_trace [(c, call, r)] \<longleftrightarrow> r = None"
  by (auto simp: ok_trace_def)

lemma ok_trace_no_error: "ok_trace t \<Longrightarrow> (i, c, Some e) \<notin> set t"
  by (auto simp: ok_trace_def list_all_iff)

text \<open>Every kind of statement a cell is made of appends to the log as \<open>cell_ok\<close> says.\<close>

lemma propagates_return: "propagates (py_return x)"
  by (simp add: propagates_def py_return_def cell_ok_def)

lemma propagates_print: "propagates (py_print l v)"
  by (simp add: propagates_def py_print_def cell_ok_def)

lemma propagates_assert: "propagates (py_assert b)"
  by (simp add: propagates_def py_assert_def py_return_def py_raise_def cell_ok_def)

lemma propagates_getitem: "propagates (series_getitem ser k)"
  by (simp add: propagates_def series_getitem_def py_return_def py_raise_def cell_ok_def
      split: option.splits)

lemma propagates_remote: "propagates (remote c f)"
  by (auto simp: propagates_def remote_def cell_ok_def split: prod.splits sum.splits)

lemma propagates_bind:
  assumes m: "propagates m" and f: "\<And>x. propagates (f x)"
  shows "propagates (py_bind m f)"
  unfolding propagates_def
proof (intro allI)
  fix s
  obtain r s' where ms: "m s = (r, s')" by (cases "m s")
  from m ms obtain new where c1: "cur s' = cur s" and t1: "trace s' = trace s @ new"
    and ok1: "cell_ok (cur s) r new"
    by (auto simp: propagates_def dest: spec [of _ s])
  show "cur (snd (py_bind m f s)) = cur s \<and>
        (\<exists>new. trace (snd (py_bind m f s)) = trace s @ new \<and>
           cell_ok (cur s) (fst (py_bind m f s)) new)"
  proof (cases r)
    case (Inl e)
    then show ?thesis using ms c1 t1 ok1 by (auto simp: py_bind_def cell_ok_def)
  next
    case (Inr x)
    obtain r2 s2 where fs: "f x s' = (r2, s2)" by (cases "f x s'")
    from f [of x] fs obtain new2 where c2: "cur s2 = cur s'" and t2: "trace s2 = trace s' @ new2"
      and ok2: "cell_ok (cur s') r2 new2"
      by (auto simp: propagates_def dest: spec [of _ s'])
    from Inr ok1 have okn: "ok_trace new" by (simp add: cell_ok_def)
    have "cell_ok (cur s) r2 (new @ new2)"
      using ok2 okn c1 by (auto simp: cell_ok_def split: sum.splits error.splits)
    then show ?thesis using Inr ms fs c1 c2 t1 t2 by (auto simp: py_bind_def)
  qed
qed

lemma propagates_split:
  assumes "\<And>a b. propagates (f a b)"
  shows "propagates (case p of (a, b) \<Rightarrow> f a b)"
  using assms by (cases p) simp

lemmas propagates_intros =
  propagates_bind propagates_return propagates_print propagates_assert propagates_getitem
  propagates_remote propagates_split

lemma cells_propagate:
  "propagates (cell_fb62e54d :: ('s, unit) py)"
  "propagates (cell_1730fe57 :: ('s, unit) py)"
  "propagates (cell_51c1426e B env)"
  "propagates (cell_3c2a8de1 B gds)"
  "propagates (cell_156843c3 B gds)"
  "propagates (cell_478eaed5 B G)"
  "propagates (cell_095c5def B G)"
  "propagates (cell_48d11361 B gds)"
  "propagates (cell_9aacdd72 B pipe)"
  "propagates (cell_5e254efe B G pipe)"
  "propagates (cell_30ff6713 B pipe)"
  "propagates (cell_8bccd326 B pipe)"
  "propagates (cell_62fca4ac B pipe)"
  "propagates (cell_89b8ad98 B G pipe)"
  "propagates (cell_c9a4f264 B model)"
  "propagates (cell_df73b21c B model)"
  "propagates (cell_d4419924 B G model)"
  "propagates (cell_9241d9ff B G)"
  "propagates (cell_94b96625 B pipe)"
  "propagates (cell_a85e1799 B model)"
  unfolding cell_defs call_defs
  by (intro propagates_intros)+

text \<open>Cells in sequence: an error stops the run, so it stays the last entry of the log.\<close>

lemma nb_propagates_in_cell:
  assumes "propagates m"
  shows "nb_propagates (in_cell c m)"
  unfolding nb_propagates_def
proof (intro allI impI)
  fix s :: "'a nbstate"
  assume ok: "ok_trace (trace s)"
  let ?s = "s\<lparr>cur := c\<rparr>"
  obtain r s' where ms: "m ?s = (r, s')" by (cases "m ?s")
  from assms ms obtain new where c1: "cur s' = c" and t1: "trace s' = trace s @ new"
    and ok1: "cell_ok c r new"
    by (auto simp: propagates_def dest: spec [of _ ?s])
  show "run_ok (in_cell c m s)"
    using ms c1 t1 ok1 ok
    by (auto simp: in_cell_def run_ok_def cell_ok_def split: sum.splits error.splits)
qed

lemma nb_propagates_return: "nb_propagates (py_return x)"
  by (simp add: nb_propagates_def py_return_def run_ok_def)

lemma nb_propagates_bind:
  assumes m: "nb_propagates m" and f: "\<And>x. nb_propagates (f x)"
  shows "nb_propagates (py_bind m f)"
  unfolding nb_propagates_def
proof (intro allI impI)
  fix s :: "'a nbstate"
  assume ok: "ok_trace (trace s)"
  obtain r s' where ms: "m s = (r, s')" by (cases "m s")
  from m ok ms have r1: "run_ok (r, s')" by (auto simp: nb_propagates_def)
  show "run_ok (py_bind m f s)"
  proof (cases r)
    case (Inl e)
    then show ?thesis using ms r1 by (auto simp: py_bind_def run_ok_def)
  next
    case (Inr x)
    with r1 have "ok_trace (trace s')" by (simp add: run_ok_def)
    with f [of x] have "run_ok (f x s')" by (simp add: nb_propagates_def)
    then show ?thesis using Inr ms by (simp add: py_bind_def)
  qed
qed

lemma notebook_propagates: "nb_propagates (notebook B env)"
  unfolding notebook_def section_defs
  by (intro nb_propagates_bind nb_propagates_return nb_propagates_in_cell cells_propagate)

text \<open>The ways a run can end.\<close>

lemma run_all_cases:
  obtains (completed) s where "run_all B env s0 = (Completed, s)" "ok_trace (trace s)"
  | (remote) s e t c where "run_all B env s0 = (Failed (cur s) (RemoteError e), s)"
      "trace s = t @ [(cur s, c, Some e)]" "ok_trace t"
  | (local) s e where "run_all B env s0 = (Failed (cur s) e, s)" "ok_trace (trace s)"
      "\<forall>x. e \<noteq> RemoteError x"
proof -
  obtain r s where n: "notebook B env (start s0) = (r, s)" by (cases "notebook B env (start s0)")
  have "ok_trace (trace (start s0))" by (simp add: start_def)
  with notebook_propagates [of B env] n have ok: "run_ok (r, s)"
    by (auto simp: nb_propagates_def)
  show thesis
  proof (cases r)
    case (Inr x)
    with n ok completed show ?thesis by (simp add: run_all_def finish_def run_ok_def)
  next
    case (Inl e)
    show ?thesis
    proof (cases e)
      case (RemoteError x)
      with Inl n ok remote show ?thesis by (auto simp: run_all_def finish_def run_ok_def)
    next
      case AssertionError
      with Inl n ok local [of s e] show ?thesis by (simp add: run_all_def finish_def run_ok_def)
    next
      case (KeyError k)
      with Inl n ok local [of s e] show ?thesis by (simp add: run_all_def finish_def run_ok_def)
    qed
  qed
qed

text \<open>
  Exceptions of the notebook's own: only the assertion of cell 3c2a8de1 raises
  \<^verbatim>\<open>AssertionError\<close>, and only the lookup of cell c9a4f264 raises \<^verbatim>\<open>KeyError\<close>.
\<close>

lemma never_raises_return: "never_raises e (py_return x)"
  by (simp add: never_raises_def py_return_def)

lemma never_raises_print: "never_raises e (py_print l v)"
  by (simp add: never_raises_def py_print_def)

lemma never_raises_assert: "e \<noteq> AssertionError \<Longrightarrow> never_raises e (py_assert b)"
  by (auto simp: never_raises_def py_assert_def py_return_def py_raise_def)

lemma never_raises_getitem: "e \<noteq> KeyError k \<Longrightarrow> never_raises e (series_getitem ser k)"
  by (auto simp: never_raises_def series_getitem_def py_return_def py_raise_def
      split: option.splits)

lemma never_raises_remote: "\<forall>x. e \<noteq> RemoteError x \<Longrightarrow> never_raises e (remote c f)"
  by (auto simp: never_raises_def remote_def split: prod.splits sum.splits)

lemma never_raises_in_cell: "never_raises e m \<Longrightarrow> never_raises e (in_cell c m)"
  by (simp add: never_raises_def in_cell_def)

lemma never_raises_bind:
  assumes m: "never_raises e m" and f: "\<And>x. never_raises e (f x)"
  shows "never_raises e (py_bind m f)"
  unfolding never_raises_def
proof
  fix s
  obtain r s' where ms: "m s = (r, s')" by (cases "m s")
  show "fst (py_bind m f s) \<noteq> Inl e"
  proof (cases r)
    case (Inl e')
    with m ms show ?thesis by (auto simp: py_bind_def never_raises_def dest: spec [of _ s])
  next
    case (Inr x)
    with f [of x] ms show ?thesis by (auto simp: py_bind_def never_raises_def)
  qed
qed

lemma never_raises_split:
  assumes "\<And>a b. never_raises e (f a b)"
  shows "never_raises e (case p of (a, b) \<Rightarrow> f a b)"
  using assms by (cases p) simp

lemmas never_raises_intros =
  never_raises_bind never_raises_in_cell never_raises_return never_raises_print
  never_raises_assert never_raises_getitem never_raises_remote never_raises_split

lemma cells_never_assert:
  "never_raises AssertionError (cell_fb62e54d :: ('s, unit) py)"
  "never_raises AssertionError (cell_1730fe57 :: ('s, unit) py)"
  "never_raises AssertionError (cell_51c1426e B env)"
  "never_raises AssertionError (cell_156843c3 B gds)"
  "never_raises AssertionError (cell_478eaed5 B G)"
  "never_raises AssertionError (cell_095c5def B G)"
  "never_raises AssertionError (cell_48d11361 B gds)"
  "never_raises AssertionError (cell_9aacdd72 B pipe)"
  "never_raises AssertionError (cell_5e254efe B G pipe)"
  "never_raises AssertionError (cell_30ff6713 B pipe)"
  "never_raises AssertionError (cell_8bccd326 B pipe)"
  "never_raises AssertionError (cell_62fca4ac B pipe)"
  "never_raises AssertionError (cell_89b8ad98 B G pipe)"
  "never_raises AssertionError (cell_c9a4f264 B model)"
  "never_raises AssertionError (cell_df73b21c B model)"
  "never_raises AssertionError (cell_d4419924 B G model)"
  "never_raises AssertionError (cell_9241d9ff B G)"
  "never_raises AssertionError (cell_94b96625 B pipe)"
  "never_raises AssertionError (cell_a85e1799 B model)"
  unfolding cell_defs call_defs
  by (intro never_raises_intros; simp)+

lemma cells_never_keyerror:
  "never_raises (KeyError k) (cell_fb62e54d :: ('s, unit) py)"
  "never_raises (KeyError k) (cell_1730fe57 :: ('s, unit) py)"
  "never_raises (KeyError k) (cell_51c1426e B env)"
  "never_raises (KeyError k) (cell_3c2a8de1 B gds)"
  "never_raises (KeyError k) (cell_156843c3 B gds)"
  "never_raises (KeyError k) (cell_478eaed5 B G)"
  "never_raises (KeyError k) (cell_095c5def B G)"
  "never_raises (KeyError k) (cell_48d11361 B gds)"
  "never_raises (KeyError k) (cell_9aacdd72 B pipe)"
  "never_raises (KeyError k) (cell_5e254efe B G pipe)"
  "never_raises (KeyError k) (cell_30ff6713 B pipe)"
  "never_raises (KeyError k) (cell_8bccd326 B pipe)"
  "never_raises (KeyError k) (cell_62fca4ac B pipe)"
  "never_raises (KeyError k) (cell_89b8ad98 B G pipe)"
  "k \<noteq> ''F1_MACRO'' \<Longrightarrow> never_raises (KeyError k) (cell_c9a4f264 B model)"
  "never_raises (KeyError k) (cell_df73b21c B model)"
  "never_raises (KeyError k) (cell_d4419924 B G model)"
  "never_raises (KeyError k) (cell_9241d9ff B G)"
  "never_raises (KeyError k) (cell_94b96625 B pipe)"
  "never_raises (KeyError k) (cell_a85e1799 B model)"
  unfolding cell_defs call_defs
  by (intro never_raises_intros; simp)+

lemma raises_in_never:
  assumes "never_raises e m"
  shows "raises_in e c (in_cell c' m)"
  using assms by (simp add: raises_in_def never_raises_def in_cell_def)

lemma raises_in_same:
  assumes "propagates m"
  shows "raises_in e c (in_cell c m)"
  using assms by (simp add: raises_in_def propagates_def in_cell_def)

lemma raises_in_return: "raises_in e c (py_return x)"
  by (simp add: raises_in_def py_return_def)

lemma raises_in_bind:
  assumes "raises_in e c m" and "\<And>x. raises_in e c (f x)"
  shows "raises_in e c (py_bind m f)"
  unfolding raises_in_def
proof (intro allI impI)
  fix s
  assume a: "fst (py_bind m f s) = Inl e"
  obtain r s' where ms: "m s = (r, s')" by (cases "m s")
  show "cur (snd (py_bind m f s)) = c"
  proof (cases r)
    case (Inl e')
    with a ms assms(1) show ?thesis
      by (auto simp: py_bind_def raises_in_def dest: spec [of _ s])
  next
    case (Inr x)
    with a ms assms(2) [of x] show ?thesis
      by (auto simp: py_bind_def raises_in_def dest: spec [of _ s'])
  qed
qed

lemma notebook_asserts_in: "raises_in AssertionError ''3c2a8de1'' (notebook B env)"
  unfolding notebook_def section_defs
  by (intro raises_in_bind raises_in_return raises_in_never cells_never_assert
        raises_in_same [of "cell_3c2a8de1 B gds" for gds] cells_propagate)

lemma notebook_keyerror_in: "raises_in (KeyError k) ''c9a4f264'' (notebook B env)"
  unfolding notebook_def section_defs
  by (intro raises_in_bind raises_in_return raises_in_never cells_never_keyerror
        raises_in_same [of "cell_c9a4f264 B model" for model] cells_propagate)

lemma notebook_keyerror_key:
  assumes "k \<noteq> ''F1_MACRO''"
  shows "never_raises (KeyError k) (notebook B env)"
  unfolding notebook_def section_defs
  by (intro never_raises_bind never_raises_in_cell never_raises_return cells_never_keyerror assms)

lemma run_all_local:
  assumes "fst (run_all B env s0) = Failed i e"
  shows "\<exists>s. notebook B env (start s0) = (Inl e, s) \<and> i = cur s"
  using assms by (auto simp: run_all_def finish_def split: prod.splits sum.splits)

text \<open>
  C2: whenever a library call of the notebook reports an error, the run ends there: the
  outcome is that error, raised in the cell that issued the call, the call is the last
  entry of the log (no later call, no second attempt) and no earlier call had reported
  an error.  Conversely, an outcome that is the error of a library call is the error of
  the last call logged, in that cell.  The only check of the notebook's own is the
  version assertion: a run that ends with \<^verbatim>\<open>AssertionError\<close> ends in cell 3c2a8de1.
  The only other exception that is not the error of a call is the \<^verbatim>\<open>KeyError\<close> of
  the lookup \<^verbatim>\<open>['F1_MACRO']\<close> in cell c9a4f264, which tests nothing.
\<close>

theorem C2_errors_propagate:
  "(\<forall>i c e. (i, c, Some e) \<in> set (trace (snd (run_all B env s0))) \<longrightarrow>
      fst (run_all B env s0) = Failed i (RemoteError e) \<and>
      (\<exists>t. trace (snd (run_all B env s0)) = t @ [(i, c, Some e)] \<and> ok_trace t)) \<and>
   (\<forall>i e. fst (run_all B env s0) = Failed i (RemoteError e) \<longrightarrow>
      (\<exists>c. (i, c, Some e) \<in> set (trace (snd (run_all B env s0))))) \<and>
   (\<forall>i. fst (run_all B env s0) = Failed i AssertionError \<longrightarrow> i = ''3c2a8de1'') \<and>
   (\<forall>i k. fst (run_all B env s0) = Failed i (KeyError k) \<longrightarrow>
      i = ''c9a4f264'' \<and> k = ''F1_MACRO'')"
proof -
  have raised: "fst (run_all B env s0) = Failed i (RemoteError e) \<and>
      (\<exists>t. trace (snd (run_all B env s0)) = t @ [(i, c, Some e)] \<and> ok_trace t)"
    if mem: "(i, c, Some e) \<in> set (trace (snd (run_all B env s0)))" for i c e
  proof (cases rule: run_all_cases [of B env s0])
    case (completed s)
    with mem ok_trace_no_error show ?thesis by fastforce
  next
    case (remote s e' t c')
    with mem ok_trace_no_error [OF remote(3)] show ?thesis by auto
  next
    case (local s e')
    with mem ok_trace_no_error show ?thesis by fastforce
  qed
  have logged: "\<exists>c. (i, c, Some e) \<in> set (trace (snd (run_all B env s0)))"
    if f: "fst (run_all B env s0) = Failed i (RemoteError e)" for i e
  proof (cases rule: run_all_cases [of B env s0])
    case (completed s)
    with f show ?thesis by simp
  next
    case (remote s e' t c')
    with f show ?thesis by auto
  next
    case (local s e')
    with f show ?thesis by simp
  qed
  have check: "i = ''3c2a8de1''" if f: "fst (run_all B env s0) = Failed i AssertionError" for i
    using run_all_local [OF f] notebook_asserts_in [of B env]
    by (auto simp: raises_in_def dest: spec [of _ "start s0"])
  have lookup: "i = ''c9a4f264'' \<and> k = ''F1_MACRO''"
    if f: "fst (run_all B env s0) = Failed i (KeyError k)" for i k
  proof -
    from run_all_local [OF f] obtain s where
      n: "notebook B env (start s0) = (Inl (KeyError k), s)" and i: "i = cur s"
      by blast
    from n notebook_keyerror_in [of k B env] i have "i = ''c9a4f264''"
      by (auto simp: raises_in_def dest: spec [of _ "start s0"])
    moreover have "k = ''F1_MACRO''"
    proof (rule ccontr)
      assume "k \<noteq> ''F1_MACRO''"
      from notebook_keyerror_key [OF this, of B env] n show False
        by (auto simp: never_raises_def dest: spec [of _ "start s0"])
    qed
    ultimately show ?thesis by simp
  qed
  from raised logged check lookup show ?thesis by blast
qed

text \<open>
  C2 at three runs against the catalog server: one whose trainer reports a failure (the
  training call of cell 89b8ad98 is the last of fifteen entries and its error the
  outcome), one whose version is 2.4.9 (the assertion of cell 3c2a8de1 fails), and one
  whose model has no metric values (the lookup of cell c9a4f264 fails).
\<close>

theorem C2_errors_propagate_witness:
  "(''89b8ad98'', Train (NCPipeline ''genre-predictor-pipe'') (Graph ''imdb'') train_kwargs,
      Some (ServerError ''insufficient data''))
     \<in> set (trace (snd (run_all gds_backend Map.empty failing_server))) \<and>
   fst (run_all gds_backend Map.empty failing_server) =
     Failed ''89b8ad98'' (RemoteError (ServerError ''insufficient data'')) \<and>
   length (trace (snd (run_all gds_backend Map.empty failing_server))) = 15 \<and>
   fst (run_all gds_backend Map.empty (demo_server (ServerVersion 2 4 9))) =
     Failed ''3c2a8de1'' AssertionError \<and>
   fst (run_all gds_backend Map.empty no_metric_server) =
     Failed ''c9a4f264'' (KeyError ''F1_MACRO'')"
proof -
  have mem: "(''89b8ad98'', Train (NCPipeline ''genre-predictor-pipe'') (Graph ''imdb'') train_kwargs,
      Some (ServerError ''insufficient data''))
     \<in> set (trace (snd (run_all gds_backend Map.empty failing_server)))"
    by (simp add: run_defs failing_server_def)
  have len: "length (trace (snd (run_all gds_backend Map.empty failing_server))) = 15"
    by (simp add: run_defs failing_server_def)
  have old: "fst (run_all gds_backend Map.empty (demo_server (ServerVersion 2 4 9))) =
     Failed ''3c2a8de1'' AssertionError"
    by (simp add: run_defs)
  have key: "fst (run_all gds_backend Map.empty no_metric_server) =
     Failed ''c9a4f264'' (KeyError ''F1_MACRO'')"
    by (simp add: run_defs no_metric_server_def)
  from C2_errors_propagate [of gds_backend Map.empty failing_server] mem
  have "fst (run_all gds_backend Map.empty failing_server) =
     Failed ''89b8ad98'' (RemoteError (ServerError ''insufficient data''))"
    by blast
  with mem len old key show ?thesis by simp
qed

subsection \<open>Training comes after the configuration of the pipeline\<close>

lemma no_train_simps [simp]:
  "no_train []"
  "no_train (t @ u) \<longleftrightarrow> no_train t \<and> no_train u"
  "no_train ((i, c, r) # t) \<longleftrightarrow> \<not> is_train c \<and> no_train t"
  by (auto simp: no_train_def)

text \<open>Every statement but the training call leaves the log free of training calls.\<close>

lemma train_free_return: "train_free (py_return x)"
  by (simp add: train_free_def py_return_def)

lemma train_free_print: "train_free (py_print l v)"
  by (simp add: train_free_def py_print_def)

lemma train_free_assert: "train_free (py_assert b)"
  by (simp add: train_free_def py_assert_def py_return_def py_raise_def)

lemma train_free_getitem: "train_free (series_getitem ser k)"
  by (simp add: train_free_def series_getitem_def py_return_def py_raise_def
      split: option.splits)

lemma train_free_remote: "\<not> is_train c \<Longrightarrow> train_free (remote c f)"
  by (auto simp: train_free_def remote_def split: prod.splits sum.splits)

lemma train_free_in_cell:
  assumes "train_free m"
  shows "train_free (in_cell c m)"
  unfolding train_free_def in_cell_def
proof
  fix s :: "'a nbstate"
  from assms obtain new where
    "trace (snd (m (s\<lparr>cur := c\<rparr>))) = trace (s\<lparr>cur := c\<rparr>) @ new" "no_train new"
    unfolding train_free_def by blast
  then show "\<exists>new. trace (snd (m (s\<lparr>cur := c\<rparr>))) = trace s @ new \<and> no_train new"
    by simp
qed

lemma train_free_bind:
  assumes m: "train_free m" and f: "\<And>x. train_free (f x)"
  shows "train_free (py_bind m f)"
  unfolding train_free_def
proof
  fix s
  obtain r s' where ms: "m s = (r, s')" by (cases "m s")
  from m ms obtain new where t1: "trace s' = trace s @ new" and n1: "no_train new"
    by (auto simp: train_free_def dest: spec [of _ s])
  show "\<exists>new. trace (snd (py_bind m f s)) = trace s @ new \<and> no_train new"
  proof (cases r)
    case (Inl e)
    with ms t1 n1 show ?thesis by (auto simp: py_bind_def)
  next
    case (Inr x)
    from f [of x] obtain new2 where "trace (snd (f x s')) = trace s' @ new2" "no_train new2"
      by (auto simp: train_free_def dest: spec [of _ s'])
    with Inr ms t1 n1 show ?thesis by (auto simp: py_bind_def)
  qed
qed

lemma train_free_split:
  assumes "\<And>a b. train_free (f a b)"
  shows "train_free (case p of (a, b) \<Rightarrow> f a b)"
  using assms by (cases p) simp

lemmas train_free_intros =
  train_free_bind train_free_in_cell train_free_return train_free_print train_free_assert
  train_free_getitem train_free_split

lemma sections_train_free:
  "train_free (in_cell c (cell_fb62e54d :: ('s, unit) py))"
  "train_free (session_setup B env)"
  "train_free (loading B gds)"
  "train_free (configuring B gds)"
  "train_free (in_cell c1 (cell_c9a4f264 B model))"
  "train_free (in_cell c2 (cell_df73b21c B model))"
  "train_free (predicting B G model)"
  "train_free (cleaning_up B G pipe model)"
  unfolding section_defs cell_defs call_defs
  by (intro train_free_intros train_free_remote; simp)+

lemma cells_train_free:
  "train_free (in_cell c (cell_5e254efe B G pipe))"
  "train_free (in_cell c (cell_30ff6713 B pipe))"
  "train_free (in_cell c (cell_8bccd326 B pipe))"
  "train_free (in_cell c (cell_62fca4ac B pipe))"
  unfolding cell_defs call_defs
  by (intro train_free_intros train_free_remote; simp)+

text \<open>What the three configuration cells and the training cell log.\<close>

lemma cell_30ff6713_selects:
  "in_cell ''30ff6713'' (cell_30ff6713 B pipe) s = (Inr x, s') \<Longrightarrow> selected pipe (trace s')"
  by (auto simp: cell_30ff6713_def selectFeatures_def py_defs selected_def
      split: sum.splits prod.splits)

lemma cell_8bccd326_adds:
  "in_cell ''8bccd326'' (cell_8bccd326 B pipe) s = (Inr x, s') \<Longrightarrow> has_lr pipe (trace s')"
  by (auto simp: cell_8bccd326_def addLogisticRegression_def py_defs has_lr_def
      split: sum.splits prod.splits)

lemma cell_62fca4ac_adds:
  "in_cell ''62fca4ac'' (cell_62fca4ac B pipe) s = (Inr x, s') \<Longrightarrow> has_rf pipe (trace s')"
  by (auto simp: cell_62fca4ac_def addRandomForest_def py_defs has_rf_def
      split: sum.splits prod.splits)

lemma cell_89b8ad98_trains:
  "in_cell ''89b8ad98'' (cell_89b8ad98 B G pipe) s = (r, s') \<Longrightarrow>
     \<exists>e. trace s' = trace s @ [(''89b8ad98'', Train pipe G train_kwargs, e)]"
  by (auto simp: cell_89b8ad98_def train_def py_defs split: sum.splits prod.splits)

lemma selected_mono: "selected p t \<Longrightarrow> selected p (t @ u)"
  by (simp add: selected_def)

lemma has_lr_mono: "has_lr p t \<Longrightarrow> has_lr p (t @ u)"
  by (auto simp: has_lr_def)

text \<open>Guarded logs: appending calls other than training, and a training call of a
  configured pipeline.\<close>

lemma train_guarded_Nil: "train_guarded []"
  by (simp add: train_guarded_def)

lemma train_guarded_append:
  assumes g: "train_guarded t" and n: "no_train new"
  shows "train_guarded (t @ new)"
  unfolding train_guarded_def
proof (intro allI impI)
  fix t1 i p g kw r t2
  assume eq: "t @ new = t1 @ (i, Train p g kw, r) # t2"
  then consider (left) us where "t = t1 @ us" "us @ new = (i, Train p g kw, r) # t2"
    | (right) us where "t @ us = t1" "new = us @ (i, Train p g kw, r) # t2"
    by (auto simp: append_eq_append_conv2)
  then show "configured p t1"
  proof cases
    case left
    show ?thesis
    proof (cases us)
      case Nil
      with left n have False by simp
      then show ?thesis ..
    next
      case (Cons u us')
      with left have "t = t1 @ (i, Train p g kw, r) # us'" by simp
      with g show ?thesis by (auto simp: train_guarded_def)
    qed
  next
    case right
    with n have False by simp
    then show ?thesis ..
  qed
qed

lemma train_guarded_train:
  assumes g: "train_guarded t" and c: "configured p t"
  shows "train_guarded (t @ [(i, Train p g kw, r)])"
  unfolding train_guarded_def
proof (intro allI impI)
  fix t1 i' p' g' kw' r' t2
  assume eq: "t @ [(i, Train p g kw, r)] = t1 @ (i', Train p' g' kw', r') # t2"
  show "configured p' t1"
  proof (cases t2 rule: rev_cases)
    case Nil
    with eq have "t1 = t" "p' = p" by simp_all
    with c show ?thesis by simp
  next
    case (snoc t2' x)
    with eq have "t = t1 @ (i', Train p' g' kw', r') # t2'" by simp
    with g show ?thesis by (auto simp: train_guarded_def)
  qed
qed

text \<open>The rules for \<open>maintains\<close>: sequencing, and statements without a training call,
  which keep every fact that appending preserves and may add one on success.\<close>

lemma maintains_bind:
  assumes m: "maintains P m Q" and f: "\<And>x. maintains (Q x) (f x) R"
  shows "maintains P (py_bind m f) R"
  unfolding maintains_def
proof (intro allI impI)
  fix s
  assume p: "P s"
  obtain r s' where ms: "m s = (r, s')" by (cases "m s")
  show "case py_bind m f s of (Inl e, s') \<Rightarrow> train_guarded (trace s') | (Inr x, s') \<Rightarrow> R x s'"
  proof (cases r)
    case (Inl e)
    with m p ms show ?thesis by (auto simp: maintains_def py_bind_def dest: spec [of _ s])
  next
    case (Inr x)
    with m p ms have "Q x s'" by (auto simp: maintains_def dest: spec [of _ s])
    with f [of x]
    have "case f x s' of (Inl e, s') \<Rightarrow> train_guarded (trace s') | (Inr x, s') \<Rightarrow> R x s'"
      by (simp add: maintains_def)
    with Inr ms show ?thesis by (simp add: py_bind_def)
  qed
qed

lemma maintains_gain:
  fixes m :: "('s, 'a) py"
  assumes tf: "train_free m" and mono: "\<And>t u. M t \<Longrightarrow> M (t @ u)"
    and gain: "\<And>s x s'. m s = (Inr x, s') \<Longrightarrow> N (trace s')"
  shows "maintains (\<lambda>s. train_guarded (trace s) \<and> M (trace s)) m
           (\<lambda>_ s. train_guarded (trace s) \<and> M (trace s) \<and> N (trace s))"
  unfolding maintains_def
proof (intro allI impI)
  fix s :: "'s nbstate"
  assume p: "train_guarded (trace s) \<and> M (trace s)"
  obtain r s' where ms: "m s = (r, s')" by (cases "m s")
  from tf ms obtain new where t: "trace s' = trace s @ new" and n: "no_train new"
    by (auto simp: train_free_def dest: spec [of _ s])
  from p t n have "train_guarded (trace s')" "M (trace s')"
    by (simp_all add: train_guarded_append mono)
  with ms gain show "case m s of (Inl e, s') \<Rightarrow> train_guarded (trace s')
      | (Inr x, s') \<Rightarrow> train_guarded (trace s') \<and> M (trace s') \<and> N (trace s')"
    by (auto split: sum.splits)
qed

lemma maintains_train_free:
  assumes tf: "train_free m"
  shows "maintains (\<lambda>s. train_guarded (trace s)) m (\<lambda>_ s. train_guarded (trace s))"
  using maintains_gain [OF tf, of "\<lambda>_. True" "\<lambda>_. True"] by simp

text \<open>The sections from the embedding step to the training, and the whole notebook.\<close>

lemma hashgnn_step_maintains:
  "maintains (\<lambda>s. train_guarded (trace s)) (hashgnn_step B G pipe)
     (\<lambda>_ s. train_guarded (trace s) \<and> selected pipe (trace s))"
  unfolding hashgnn_step_def
proof (rule maintains_bind [OF maintains_train_free [OF cells_train_free(1)]])
  fix x :: unit
  from maintains_gain [OF cells_train_free(2), of "\<lambda>_. True" "''30ff6713''" B pipe "selected pipe"]
    cell_30ff6713_selects [of B pipe]
  show "maintains (\<lambda>s. train_guarded (trace s)) (in_cell ''30ff6713'' (cell_30ff6713 B pipe))
          (\<lambda>_ s. train_guarded (trace s) \<and> selected pipe (trace s))"
    by simp
qed

lemma autotuning_maintains:
  "maintains (\<lambda>s. train_guarded (trace s) \<and> selected pipe (trace s)) (autotuning B pipe)
     (\<lambda>_ s. train_guarded (trace s) \<and> configured pipe (trace s))"
  unfolding autotuning_def
proof (rule maintains_bind)
  show "maintains (\<lambda>s. train_guarded (trace s) \<and> selected pipe (trace s))
          (in_cell ''8bccd326'' (cell_8bccd326 B pipe))
          (\<lambda>_ s. train_guarded (trace s) \<and> selected pipe (trace s) \<and> has_lr pipe (trace s))"
    by (rule maintains_gain [OF cells_train_free(3)])
       (auto intro: selected_mono dest: cell_8bccd326_adds)
next
  fix x :: unit
  have "maintains
          (\<lambda>s. train_guarded (trace s) \<and> (selected pipe (trace s) \<and> has_lr pipe (trace s)))
          (in_cell ''62fca4ac'' (cell_62fca4ac B pipe))
          (\<lambda>_ s. train_guarded (trace s) \<and> (selected pipe (trace s) \<and> has_lr pipe (trace s))
             \<and> has_rf pipe (trace s))"
    by (rule maintains_gain [OF cells_train_free(4)])
       (auto intro: selected_mono has_lr_mono dest: cell_62fca4ac_adds)
  then show "maintains
          (\<lambda>s. train_guarded (trace s) \<and> selected pipe (trace s) \<and> has_lr pipe (trace s))
          (in_cell ''62fca4ac'' (cell_62fca4ac B pipe))
          (\<lambda>_ s. train_guarded (trace s) \<and> configured pipe (trace s))"
    by (simp add: maintains_def configured_def split: prod.splits sum.splits)
qed

lemma train_cell_maintains:
  "maintains (\<lambda>s. train_guarded (trace s) \<and> configured pipe (trace s))
     (in_cell ''89b8ad98'' (cell_89b8ad98 B G pipe)) (\<lambda>_ s. train_guarded (trace s))"
  unfolding maintains_def
proof (intro allI impI)
  fix s :: "'a nbstate"
  assume p: "train_guarded (trace s) \<and> configured pipe (trace s)"
  obtain r s' where ms: "in_cell ''89b8ad98'' (cell_89b8ad98 B G pipe) s = (r, s')"
    by (cases "in_cell ''89b8ad98'' (cell_89b8ad98 B G pipe) s")
  from cell_89b8ad98_trains [OF ms] p have "train_guarded (trace s')"
    by (auto simp: train_guarded_train)
  with ms show "case in_cell ''89b8ad98'' (cell_89b8ad98 B G pipe) s of
      (Inl e, s') \<Rightarrow> train_guarded (trace s') | (Inr x, s') \<Rightarrow> train_guarded (trace s')"
    by (simp split: sum.splits)
qed

lemma training_maintains:
  "maintains (\<lambda>s. train_guarded (trace s) \<and> configured pipe (trace s)) (training B G pipe)
     (\<lambda>_ s. train_guarded (trace s))"
  unfolding training_def
  by (intro maintains_bind [OF train_cell_maintains]
        maintains_bind [OF maintains_train_free [OF sections_train_free(5)]]
        maintains_bind [OF maintains_train_free [OF sections_train_free(6)]]
        maintains_train_free [OF train_free_return])

lemma notebook_maintains:
  "maintains (\<lambda>s. train_guarded (trace s)) (notebook B env) (\<lambda>_ s. train_guarded (trace s))"
  unfolding notebook_def
  by (intro maintains_bind [OF maintains_train_free [OF sections_train_free(1)]]
        maintains_bind [OF maintains_train_free [OF sections_train_free(2)]]
        maintains_bind [OF maintains_train_free [OF sections_train_free(3)]]
        maintains_bind [OF maintains_train_free [OF sections_train_free(4)]]
        maintains_bind [OF hashgnn_step_maintains]
        maintains_bind [OF autotuning_maintains]
        maintains_bind [OF training_maintains]
        maintains_bind [OF maintains_train_free [OF sections_train_free(7)]]
        maintains_train_free [OF sections_train_free(8)])

lemma run_all_guarded: "train_guarded (trace (snd (run_all B env s0)))"
proof -
  have "train_guarded (trace (start s0))" by (simp add: start_def train_guarded_Nil)
  with notebook_maintains [of B env] show ?thesis
    by (auto simp: maintains_def run_all_def finish_def split: prod.splits sum.splits
          dest!: spec [of _ "start s0"])
qed

lemma selected_features_mem:
  "(i, SelectFeatures p fs, None) \<in> set t \<Longrightarrow> fs \<noteq> [] \<Longrightarrow> selected_features p t \<noteq> []"
  by (induction t) (auto simp: selected_features_def)

lemma candidate_models_mem:
  "(i, AddLogisticRegression p kw, None) \<in> set t \<Longrightarrow> candidate_models p t \<noteq> []"
  by (induction t) (auto simp: candidate_models_def)

text \<open>The complete run against the catalog server of version 2.5.0.\<close>

lemma demo_run_trace:
  "trace (snd (run_all gds_backend Map.empty (demo_server (ServerVersion 2 5 0)))) = demo_trace"
  by (simp add: run_defs demo_trace_def Let_def)

lemma demo_run_outcome:
  "fst (run_all gds_backend Map.empty (demo_server (ServerVersion 2 5 0))) = Completed"
  by (simp add: run_defs)

text \<open>
  The state in which the training call is made.  The notebook is the cells before the
  training cell followed by the cells from it on; the first part logs no training call,
  and the second part starts with the training call of cell 89b8ad98.
\<close>

lemma py_bind_assoc: "py_bind (py_bind m f) g = py_bind m (\<lambda>x. py_bind (f x) g)"
  by (rule ext) (simp add: py_bind_def split: prod.splits sum.splits)

lemma py_bind_return: "py_bind (py_return x) f = f x"
  by (rule ext) (simp add: py_bind_def py_return_def)

lemma notebook_split:
  "notebook B env = py_bind (before_training B env) (\<lambda>(G, pipe). from_training B G pipe)"
  by (simp add: notebook_def before_training_def from_training_def py_bind_assoc py_bind_return)

lemma py_bind_InrE:
  assumes "py_bind m f s = (Inr y, s'')"
  obtains x s' where "m s = (Inr x, s')" and "f x s' = (Inr y, s'')"
  using assms by (auto simp: py_bind_def split: prod.splits sum.splits)

lemma py_return_InrE:
  assumes "py_return x s = (Inr y, s')"
  obtains "y = x" and "s' = s"
  using assms by (simp add: py_return_def)

lemma configuration_sections_train_free:
  "train_free (hashgnn_step B G pipe)"
  "train_free (autotuning B pipe)"
  unfolding hashgnn_step_def autotuning_def
  by (intro train_free_bind cells_train_free)+

lemma before_training_train_free: "train_free (before_training B env)"
  unfolding before_training_def
  by (intro train_free_bind train_free_return sections_train_free
        configuration_sections_train_free)

lemma cell_89b8ad98_invokes:
  "in_cell ''89b8ad98'' (cell_89b8ad98 B G pipe) s = (r, s') \<Longrightarrow>
     trace s' = trace s @
       [(''89b8ad98'', Train pipe G train_kwargs,
         call_error (fst (b_train B pipe G train_kwargs (server s))))]"
  by (auto simp: cell_89b8ad98_def train_def py_defs call_error_def split: sum.splits prod.splits)

lemma after_first_call:
  fixes m :: "('s, 'a) py"
  assumes first: "\<And>r s'. m s = (r, s') \<Longrightarrow> trace s' = trace s @ [x]"
    and rest: "\<And>v. train_free (f v)"
  shows "\<exists>post. trace (snd (py_bind m f s)) = trace s @ x # post \<and> no_train post"
proof -
  obtain r s' where ms: "m s = (r, s')" by (cases "m s")
  from first [OF ms] have t: "trace s' = trace s @ [x]" .
  show ?thesis
  proof (cases r)
    case (Inl e)
    with ms t show ?thesis by (simp add: py_bind_def)
  next
    case (Inr v)
    from rest [of v] obtain new where "trace (snd (f v s')) = trace s' @ new" "no_train new"
      by (auto simp: train_free_def dest: spec [of _ s'])
    with Inr ms t show ?thesis by (simp add: py_bind_def)
  qed
qed

lemma from_training_trace:
  "\<exists>post. trace (snd (from_training B G pipe s)) =
     trace s @ (''89b8ad98'', Train pipe G train_kwargs,
                call_error (fst (b_train B pipe G train_kwargs (server s)))) # post \<and>
     no_train post"
  unfolding from_training_def training_def py_bind_assoc
  apply (rule after_first_call)
   apply (erule cell_89b8ad98_invokes)
  apply (intro train_free_bind train_free_return sections_train_free)
  done

lemma train_entry_unique:
  "no_train pre \<Longrightarrow> no_train post \<Longrightarrow>
   pre @ x # post = t1 @ (i, Train p g kw, r) # t2 \<Longrightarrow>
     t1 = pre \<and> x = (i, Train p g kw, r) \<and> t2 = post"
proof (induction pre arbitrary: t1)
  case Nil
  then show ?case by (cases t1) auto
next
  case (Cons a pre)
  show ?case
  proof (cases t1)
    case Nil
    with Cons.prems show ?thesis by auto
  next
    case (Cons b list)
    with Cons.prems have "no_train pre" "pre @ x # post = list @ (i, Train p g kw, r) # t2"
      "a = b" by (simp_all add: no_train_def)
    with Cons.IH [of list] Cons.prems(2) Cons show ?thesis by simp
  qed
qed

lemma trace_finish: "trace (snd (finish r)) = trace (snd r)"
  by (simp add: finish_def split: prod.splits sum.splits)

text \<open>
  A training call in the log of a run was made by cell 89b8ad98 in the state the cells
  before it ended in, on the handles they bound, and the log before the call is the log
  of that state.
\<close>

lemma train_invocation:
  assumes "trace (snd (run_all B env s0)) = t1 @ (i, Train p g kw, r) # t2"
  shows "\<exists>s. before_training B env (start s0) = (Inr (g, p), s) \<and>
           run_all B env s0 = finish (from_training B g p s) \<and>
           trace s = t1 \<and> i = ''89b8ad98'' \<and> kw = train_kwargs \<and>
           r = call_error (fst (b_train B p g kw (server s)))"
proof -
  obtain rb sb where bt: "before_training B env (start s0) = (rb, sb)"
    by (cases "before_training B env (start s0)")
  from before_training_train_free [of B env] bt have nt: "no_train (trace sb)"
    by (auto simp: train_free_def start_def dest: spec [of _ "start s0"])
  show ?thesis
  proof (cases rb)
    case (Inl e)
    with bt have "notebook B env (start s0) = (Inl e, sb)"
      by (simp add: notebook_split py_bind_def)
    then have "trace (snd (run_all B env s0)) = trace sb"
      by (simp add: run_all_def trace_finish)
    with assms nt show ?thesis by simp
  next
    case (Inr gp)
    obtain G pipe where gp: "gp = (G, pipe)" by (cases gp)
    from Inr gp bt have nb: "notebook B env (start s0) = from_training B G pipe sb"
      by (simp add: notebook_split py_bind_def)
    then have ra: "run_all B env s0 = finish (from_training B G pipe sb)"
      by (simp add: run_all_def)
    from from_training_trace [of B G pipe sb] obtain post where
      tr: "trace (snd (from_training B G pipe sb)) =
        trace sb @ (''89b8ad98'', Train pipe G train_kwargs,
                    call_error (fst (b_train B pipe G train_kwargs (server sb)))) # post"
      and np: "no_train post"
      by blast
    from ra tr assms have "trace sb @ (''89b8ad98'', Train pipe G train_kwargs,
        call_error (fst (b_train B pipe G train_kwargs (server sb)))) # post =
        t1 @ (i, Train p g kw, r) # t2"
      by (simp add: trace_finish)
    from train_entry_unique [OF nt np this] Inr gp bt ra show ?thesis by auto
  qed
qed

text \<open>
  On the catalog server: what each cell between the creation of the pipeline and the
  training call does to the pipeline configuration the server holds.
\<close>

lemma cell_48d11361_catalog:
  assumes "in_cell c (cell_48d11361 gds_backend gds) s = (Inr pipe, s')"
  shows "pipe = NCPipeline ''genre-predictor-pipe''"
    and "pipelines (server s') ''genre-predictor-pipe'' = Some empty_pipeline"
  using assms
  by (auto simp: cell_48d11361_def nodeClassification_create_def py_defs gds_backend_def
      srv_nodeClassification_create_def split: prod.splits sum.splits)

lemma cell_9aacdd72_catalog:
  assumes "in_cell c (cell_9aacdd72 gds_backend (NCPipeline n)) s = (Inr u, s')"
    and "pipelines (server s) n = Some cfg"
  shows "pipelines (server s') n = Some (cfg\<lparr>p_split := split_kwargs\<rparr>)"
  using assms
  by (auto simp: cell_9aacdd72_def configureSplit_def py_defs gds_backend_def
      srv_configureSplit_def update_pipeline_def with_pipeline_def
      split: prod.splits sum.splits)

lemma cell_5e254efe_catalog:
  assumes "in_cell c (cell_5e254efe gds_backend G (NCPipeline n)) s = (Inr u, s')"
    and "pipelines (server s) n = Some cfg"
  shows "\<exists>ls. pipelines (server s') n =
           Some (cfg\<lparr>p_steps := p_steps cfg @ [(''hashgnn'', hashgnn_kwargs ls)]\<rparr>)"
  using assms
  by (auto simp: cell_5e254efe_def node_labels_def addNodeProperty_def py_defs gds_backend_def
      srv_node_labels_def srv_addNodeProperty_def update_pipeline_def with_pipeline_def
      with_graph_def split: prod.splits sum.splits graph.splits option.splits)

lemma cell_30ff6713_catalog:
  assumes "in_cell c (cell_30ff6713 gds_backend (NCPipeline n)) s = (Inr u, s')"
    and "pipelines (server s) n = Some cfg"
  shows "pipelines (server s') n = Some (cfg\<lparr>p_features := p_features cfg @ [''embedding'']\<rparr>)"
  using assms
  by (auto simp: cell_30ff6713_def selectFeatures_def py_defs gds_backend_def
      srv_selectFeatures_def update_pipeline_def with_pipeline_def
      split: prod.splits sum.splits)

lemma cell_8bccd326_catalog:
  assumes "in_cell c (cell_8bccd326 gds_backend (NCPipeline n)) s = (Inr u, s')"
    and "pipelines (server s) n = Some cfg"
  shows "pipelines (server s') n =
           Some (cfg\<lparr>p_candidates := p_candidates cfg @
                   [(''LogisticRegression'', logistic_regression_kwargs)]\<rparr>)"
  using assms
  by (auto simp: cell_8bccd326_def addLogisticRegression_def py_defs gds_backend_def
      srv_addLogisticRegression_def update_pipeline_def with_pipeline_def
      split: prod.splits sum.splits)

lemma cell_62fca4ac_catalog:
  assumes "in_cell c (cell_62fca4ac gds_backend (NCPipeline n)) s = (Inr u, s')"
    and "pipelines (server s) n = Some cfg"
  shows "pipelines (server s') n =
           Some (cfg\<lparr>p_candidates := p_candidates cfg @
                   [(''RandomForest'', random_forest_kwargs)]\<rparr>)"
  using assms
  by (auto simp: cell_62fca4ac_def addRandomForest_def py_defs gds_backend_def
      srv_addRandomForest_def update_pipeline_def with_pipeline_def
      split: prod.splits sum.splits)

text \<open>The pipeline configuration the server holds when the cells before the training
  cell are done.\<close>

lemma before_training_catalog:
  assumes "before_training gds_backend env s0 = (Inr (G, pipe), s)"
  shows "pipe = NCPipeline ''genre-predictor-pipe'' \<and>
         (\<exists>ls. pipelines (server s) ''genre-predictor-pipe'' =
            Some \<lparr>p_steps = [(''hashgnn'', hashgnn_kwargs ls)],
                  p_features = [''embedding''],
                  p_split = split_kwargs,
                  p_candidates = [(''LogisticRegression'', logistic_regression_kwargs),
                                  (''RandomForest'', random_forest_kwargs)]\<rparr>)"
proof -
  let ?n = "''genre-predictor-pipe''"
  from assms obtain gds s3 s4 s5 s6 u5 u6 where
    conf: "configuring gds_backend gds s3 = (Inr pipe, s4)" and
    hash: "hashgnn_step gds_backend G pipe s4 = (Inr u5, s5)" and
    tune: "autotuning gds_backend pipe s5 = (Inr u6, s6)" and
    fin: "s = s6"
    unfolding before_training_def
    by (elim py_bind_InrE py_return_InrE) auto
  from conf obtain p1 s3a u s3b where
    c1: "in_cell ''48d11361'' (cell_48d11361 gds_backend gds) s3 = (Inr p1, s3a)" and
    c2: "in_cell ''9aacdd72'' (cell_9aacdd72 gds_backend p1) s3a = (Inr u, s3b)" and
    e1: "pipe = p1" "s4 = s3b"
    unfolding configuring_def by (elim py_bind_InrE py_return_InrE) auto
  from cell_48d11361_catalog [OF c1] e1
  have pipe: "pipe = NCPipeline ?n" and p1: "p1 = NCPipeline ?n"
    and cfg1: "pipelines (server s3a) ?n = Some empty_pipeline"
    by simp_all
  from cell_9aacdd72_catalog [OF c2 [unfolded p1] cfg1] e1
  have cfg2: "pipelines (server s4) ?n = Some (empty_pipeline\<lparr>p_split := split_kwargs\<rparr>)"
    by simp
  from hash obtain u' s4a where
    h1: "in_cell ''5e254efe'' (cell_5e254efe gds_backend G (NCPipeline ?n)) s4 = (Inr u', s4a)" and
    h2: "in_cell ''30ff6713'' (cell_30ff6713 gds_backend (NCPipeline ?n)) s4a = (Inr u5, s5)"
    unfolding hashgnn_step_def pipe by (elim py_bind_InrE) auto
  from cell_5e254efe_catalog [OF h1 cfg2] obtain ls where
    cfg3: "pipelines (server s4a) ?n =
      Some (empty_pipeline\<lparr>p_split := split_kwargs,
              p_steps := [(''hashgnn'', hashgnn_kwargs ls)]\<rparr>)"
    by (auto simp: empty_pipeline_def)
  note cfg4 = cell_30ff6713_catalog [OF h2 cfg3]
  from tune obtain u'' s5a where
    a1: "in_cell ''8bccd326'' (cell_8bccd326 gds_backend (NCPipeline ?n)) s5 = (Inr u'', s5a)" and
    a2: "in_cell ''62fca4ac'' (cell_62fca4ac gds_backend (NCPipeline ?n)) s5a = (Inr u6, s6)"
    unfolding autotuning_def pipe by (elim py_bind_InrE) auto
  note cfg5 = cell_8bccd326_catalog [OF a1 cfg4]
  note cfg6 = cell_62fca4ac_catalog [OF a2 cfg5]
  from cfg6 fin pipe show ?thesis by (auto simp: empty_pipeline_def)
qed

text \<open>
  C5.  First part, for every behaviour of the library and the server: a training call
  in the log of a run was made by cell 89b8ad98, with the keyword arguments of that
  cell, in the state \<open>s\<close> the cells before it ended in and on the graph and pipeline
  handles those cells bound; the log before the call is the log of \<open>s\<close>, the logged
  result is what the library answered in \<open>s\<close>, and that log holds the acknowledged
  feature-selection call of cell 30ff6713 and the acknowledged add-candidate calls of
  cells 8bccd326 and 62fca4ac on the same handle.  Second part, on the catalog server:
  in that state \<open>s\<close>, the moment the training call is invoked, the server holds a
  configuration for the pipeline being trained whose selected features are
  \<open>[embedding]\<close> and whose candidate models are the logistic regression and the random
  forest of the notebook, so it has at least one selected feature and at least one
  candidate model.
\<close>

theorem C5_train_after_configuration:
  "(trace (snd (run_all B env s0)) = t1 @ (i, Train p g kw, r) # t2 \<longrightarrow>
      (\<exists>s. before_training B env (start s0) = (Inr (g, p), s) \<and>
           run_all B env s0 = finish (from_training B g p s) \<and>
           trace s = t1 \<and> i = ''89b8ad98'' \<and> kw = train_kwargs \<and>
           r = call_error (fst (b_train B p g kw (server s)))) \<and>
      (''30ff6713'', SelectFeatures p [''embedding''], None) \<in> set t1 \<and>
      (''8bccd326'', AddLogisticRegression p logistic_regression_kwargs, None) \<in> set t1 \<and>
      (''62fca4ac'', AddRandomForest p random_forest_kwargs, None) \<in> set t1 \<and>
      selected_features p t1 \<noteq> [] \<and> candidate_models p t1 \<noteq> []) \<and>
   (trace (snd (run_all gds_backend env srv)) = u1 @ (j, Train q h kw', r') # u2 \<longrightarrow>
      (\<exists>s cfg.
         before_training gds_backend env (start srv) = (Inr (h, q), s) \<and>
         run_all gds_backend env srv = finish (from_training gds_backend h q s) \<and>
         trace s = u1 \<and>
         r' = call_error (fst (srv_train q h kw' (server s))) \<and>
         q = NCPipeline ''genre-predictor-pipe'' \<and>
         pipelines (server s) ''genre-predictor-pipe'' = Some cfg \<and>
         p_features cfg = [''embedding''] \<and>
         p_candidates cfg = [(''LogisticRegression'', logistic_regression_kwargs),
                             (''RandomForest'', random_forest_kwargs)] \<and>
         p_features cfg \<noteq> [] \<and> p_candidates cfg \<noteq> []))"
proof -
  have log: "(\<exists>s. before_training B env (start s0) = (Inr (g, p), s) \<and>
           run_all B env s0 = finish (from_training B g p s) \<and>
           trace s = t1 \<and> i = ''89b8ad98'' \<and> kw = train_kwargs \<and>
           r = call_error (fst (b_train B p g kw (server s)))) \<and>
      (''30ff6713'', SelectFeatures p [''embedding''], None) \<in> set t1 \<and>
      (''8bccd326'', AddLogisticRegression p logistic_regression_kwargs, None) \<in> set t1 \<and>
      (''62fca4ac'', AddRandomForest p random_forest_kwargs, None) \<in> set t1 \<and>
      selected_features p t1 \<noteq> [] \<and> candidate_models p t1 \<noteq> []"
    if a: "trace (snd (run_all B env s0)) = t1 @ (i, Train p g kw, r) # t2"
  proof -
    from run_all_guarded [of B env s0] a have "configured p t1"
      by (auto simp: train_guarded_def)
    then have
      sel: "(''30ff6713'', SelectFeatures p [''embedding''], None) \<in> set t1" and
      lr: "(''8bccd326'', AddLogisticRegression p logistic_regression_kwargs, None) \<in> set t1" and
      rf: "(''62fca4ac'', AddRandomForest p random_forest_kwargs, None) \<in> set t1"
      by (auto simp: configured_def selected_def has_lr_def has_rf_def)
    have "selected_features p t1 \<noteq> []" using selected_features_mem [OF sel] by simp
    moreover have "candidate_models p t1 \<noteq> []" using candidate_models_mem [OF lr] .
    ultimately show ?thesis using train_invocation [OF a] sel lr rf by blast
  qed
  have catalog: "\<exists>s cfg.
         before_training gds_backend env (start srv) = (Inr (h, q), s) \<and>
         run_all gds_backend env srv = finish (from_training gds_backend h q s) \<and>
         trace s = u1 \<and>
         r' = call_error (fst (srv_train q h kw' (server s))) \<and>
         q = NCPipeline ''genre-predictor-pipe'' \<and>
         pipelines (server s) ''genre-predictor-pipe'' = Some cfg \<and>
         p_features cfg = [''embedding''] \<and>
         p_candidates cfg = [(''LogisticRegression'', logistic_regression_kwargs),
                             (''RandomForest'', random_forest_kwargs)] \<and>
         p_features cfg \<noteq> [] \<and> p_candidates cfg \<noteq> []"
    if a: "trace (snd (run_all gds_backend env srv)) = u1 @ (j, Train q h kw', r') # u2"
  proof -
    from train_invocation [OF a] obtain s where
      bt: "before_training gds_backend env (start srv) = (Inr (h, q), s)" and
      ra: "run_all gds_backend env srv = finish (from_training gds_backend h q s)" and
      tr: "trace s = u1" and
      res: "r' = call_error (fst (b_train gds_backend q h kw' (server s)))"
      by blast
    from before_training_catalog [OF bt] obtain ls where
      q: "q = NCPipeline ''genre-predictor-pipe''" and
      cfg: "pipelines (server s) ''genre-predictor-pipe'' =
        Some \<lparr>p_steps = [(''hashgnn'', hashgnn_kwargs ls)],
              p_features = [''embedding''],
              p_split = split_kwargs,
              p_candidates = [(''LogisticRegression'', logistic_regression_kwargs),
                              (''RandomForest'', random_forest_kwargs)]\<rparr>"
      by blast
    from res have "r' = call_error (fst (srv_train q h kw' (server s)))"
      by (simp add: gds_backend_def)
    with bt ra tr q cfg show ?thesis by simp
  qed
  from log catalog show ?thesis by blast
qed

text \<open>
  C5 at the complete run against the catalog server of version 2.5.0: the training call
  is the fifteenth call; the fourteen calls before it select one feature and add two
  candidates on the handle it trains; and when it is invoked the server's configuration
  of that pipeline has the feature \<open>embedding\<close> and the two candidates.
\<close>

theorem C5_train_after_configuration_witness:
  "trace (snd (run_all gds_backend Map.empty (demo_server (ServerVersion 2 5 0)))) =
     take 14 demo_trace @
     (''89b8ad98'', Train (NCPipeline ''genre-predictor-pipe'') (Graph ''imdb'') train_kwargs, None) #
     drop 15 demo_trace \<and>
   selected_features (NCPipeline ''genre-predictor-pipe'') (take 14 demo_trace) = [''embedding''] \<and>
   map fst (candidate_models (NCPipeline ''genre-predictor-pipe'') (take 14 demo_trace)) =
     [''LogisticRegression'', ''RandomForest''] \<and>
   fst (before_training gds_backend Map.empty (start (demo_server (ServerVersion 2 5 0)))) =
     Inr (Graph ''imdb'', NCPipeline ''genre-predictor-pipe'') \<and>
   map_option p_features
     (pipelines (server (snd (before_training gds_backend Map.empty
                                (start (demo_server (ServerVersion 2 5 0))))))
        ''genre-predictor-pipe'') = Some [''embedding''] \<and>
   map_option (map fst \<circ> p_candidates)
     (pipelines (server (snd (before_training gds_backend Map.empty
                                (start (demo_server (ServerVersion 2 5 0))))))
        ''genre-predictor-pipe'') = Some [''LogisticRegression'', ''RandomForest'']"
proof -
  let ?p = "NCPipeline ''genre-predictor-pipe''"
  let ?srv = "demo_server (ServerVersion 2 5 0)"
  have split: "trace (snd (run_all gds_backend Map.empty ?srv)) =
     take 14 demo_trace @ (''89b8ad98'', Train ?p (Graph ''imdb'') train_kwargs, None) #
     drop 15 demo_trace"
    unfolding demo_run_trace by (simp add: demo_trace_def Let_def)
  have sel: "selected_features ?p (take 14 demo_trace) = [''embedding'']"
    by (simp add: demo_trace_def Let_def selected_features_def)
  have cand: "map fst (candidate_models ?p (take 14 demo_trace)) =
     [''LogisticRegression'', ''RandomForest'']"
    by (simp add: demo_trace_def Let_def candidate_models_def)
  note t = C5_train_after_configuration
    [where env = Map.empty and srv = ?srv and ?u1.0 = "take 14 demo_trace" and j = "''89b8ad98''"
       and q = ?p and h = "Graph ''imdb''" and kw' = train_kwargs and r' = None
       and ?u2.0 = "drop 15 demo_trace", THEN conjunct2, THEN mp, OF split]
  from t obtain s cfg where
    bt: "before_training gds_backend Map.empty (start ?srv) = (Inr (Graph ''imdb'', ?p), s)" and
    cfg: "pipelines (server s) ''genre-predictor-pipe'' = Some cfg"
      "p_features cfg = [''embedding'']"
      "p_candidates cfg = [(''LogisticRegression'', logistic_regression_kwargs),
                           (''RandomForest'', random_forest_kwargs)]"
    by blast
  from bt have s: "snd (before_training gds_backend Map.empty (start ?srv)) = s"
    and g: "fst (before_training gds_backend Map.empty (start ?srv)) = Inr (Graph ''imdb'', ?p)"
    by simp_all
  from split sel cand g cfg show ?thesis unfolding s by simp
qed

subsection \<open>Session establishment\<close>

text \<open>The setup section, call by call.\<close>

lemma session_setup_result:
  "session_setup B env s =
     (case b_GraphDataScience B (NEO4J_URI env) (NEO4J_AUTH env) (NEO4J_DB env) (server s) of
        (Inl e, t) \<Rightarrow>
          (Inl (RemoteError e),
           s\<lparr>server := t, cur := ''51c1426e'',
             trace := trace s @
               [(''51c1426e'',
                 GraphDataScience (NEO4J_URI env) (NEO4J_AUTH env) (NEO4J_DB env), Some e)]\<rparr>)
      | (Inr gds, t) \<Rightarrow>
          (case b_server_version B gds t of
             (Inl e, t') \<Rightarrow>
               (Inl (RemoteError e),
                s\<lparr>server := t', cur := ''3c2a8de1'',
                  trace := trace s @
                    [(''51c1426e'',
                      GraphDataScience (NEO4J_URI env) (NEO4J_AUTH env) (NEO4J_DB env), None),
                     (''3c2a8de1'', Server_version gds, Some e)]\<rparr>)
           | (Inr v, t') \<Rightarrow>
               (if sv_ge v (ServerVersion 2 5 0) then Inr gds else Inl AssertionError,
                s\<lparr>server := t', cur := ''3c2a8de1'',
                  trace := trace s @
                    [(''51c1426e'',
                      GraphDataScience (NEO4J_URI env) (NEO4J_AUTH env) (NEO4J_DB env), None),
                     (''3c2a8de1'', Server_version gds, None)]\<rparr>)))"
  by (simp add: session_setup_def cell_1730fe57_def cell_51c1426e_def cell_3c2a8de1_def
      gds_connect_def gds_server_version_def py_defs split: prod.splits sum.splits)

text \<open>A run that fails in the setup section ends there.\<close>

lemma notebook_fails_in_setup:
  assumes "session_setup B env s = (Inl e, s')"
  shows "notebook B env s = (Inl e, s')"
proof -
  have "session_setup B env (s\<lparr>cur := ''fb62e54d''\<rparr>) = session_setup B env s"
    by (simp add: session_setup_def in_cell_def py_bind_def)
  with assms show ?thesis
    by (simp add: notebook_def py_bind_def in_cell_def cell_fb62e54d_def py_return_def)
qed

text \<open>
  C1: for every environment, session establishment (the constructor call of cell 51c1426e
  followed by the version assertion of cell 3c2a8de1) succeeds if and only if the
  constructor returns a session (the server was reached) and the server then reports a
  version at or above 2.5.0.  If the reported version is below 2.5.0, the assertion
  fails, the whole run ends in cell 3c2a8de1 with that failure, and the only calls
  issued are the constructor and the version query.  If the constructor reports an
  error, that error ends the run in cell 51c1426e.
\<close>

theorem C1_session_establishment:
  "(fst (establish_session B env s0) = Completed \<longleftrightarrow>
      (\<exists>gds s1 v s2.
         b_GraphDataScience B (NEO4J_URI env) (NEO4J_AUTH env) (NEO4J_DB env) s0 = (Inr gds, s1) \<and>
         b_server_version B gds s1 = (Inr v, s2) \<and> sv_ge v (ServerVersion 2 5 0))) \<and>
   (\<forall>gds s1 v s2.
      b_GraphDataScience B (NEO4J_URI env) (NEO4J_AUTH env) (NEO4J_DB env) s0 = (Inr gds, s1) \<and>
      b_server_version B gds s1 = (Inr v, s2) \<and> \<not> sv_ge v (ServerVersion 2 5 0) \<longrightarrow>
        fst (establish_session B env s0) = Failed ''3c2a8de1'' AssertionError \<and>
        fst (run_all B env s0) = Failed ''3c2a8de1'' AssertionError \<and>
        calls (trace (snd (run_all B env s0))) =
          [GraphDataScience (NEO4J_URI env) (NEO4J_AUTH env) (NEO4J_DB env), Server_version gds]) \<and>
   (\<forall>e s1.
      b_GraphDataScience B (NEO4J_URI env) (NEO4J_AUTH env) (NEO4J_DB env) s0 = (Inl e, s1) \<longrightarrow>
        fst (establish_session B env s0) = Failed ''51c1426e'' (RemoteError e) \<and>
        fst (run_all B env s0) = Failed ''51c1426e'' (RemoteError e))"
proof -
  let ?connect = "b_GraphDataScience B (NEO4J_URI env) (NEO4J_AUTH env) (NEO4J_DB env) s0"
  have iff: "fst (establish_session B env s0) = Completed \<longleftrightarrow>
      (\<exists>gds s1 v s2. ?connect = (Inr gds, s1) \<and>
         b_server_version B gds s1 = (Inr v, s2) \<and> sv_ge v (ServerVersion 2 5 0))"
    by (auto simp: establish_session_def finish_def start_def session_setup_result
        split: prod.splits sum.splits)
  have below: "fst (establish_session B env s0) = Failed ''3c2a8de1'' AssertionError \<and>
        fst (run_all B env s0) = Failed ''3c2a8de1'' AssertionError \<and>
        calls (trace (snd (run_all B env s0))) =
          [GraphDataScience (NEO4J_URI env) (NEO4J_AUTH env) (NEO4J_DB env), Server_version gds]"
    if c: "?connect = (Inr gds, s1)" and v: "b_server_version B gds s1 = (Inr v, s2)"
      and lt: "\<not> sv_ge v (ServerVersion 2 5 0)" for gds s1 v s2
  proof -
    from c v lt obtain s' where
      st: "session_setup B env (start s0) = (Inl AssertionError, s')" and
      cu: "cur s' = ''3c2a8de1''" and
      tr: "trace s' =
        [(''51c1426e'', GraphDataScience (NEO4J_URI env) (NEO4J_AUTH env) (NEO4J_DB env), None),
         (''3c2a8de1'', Server_version gds, None)]"
      by (simp add: session_setup_result start_def)
    from notebook_fails_in_setup [OF st] st cu tr show ?thesis
      by (simp add: establish_session_def run_all_def finish_def calls_def)
  qed
  have unreachable: "fst (establish_session B env s0) = Failed ''51c1426e'' (RemoteError e) \<and>
        fst (run_all B env s0) = Failed ''51c1426e'' (RemoteError e)"
    if c: "?connect = (Inl e, s1)" for e s1
  proof -
    from c obtain s' where
      st: "session_setup B env (start s0) = (Inl (RemoteError e), s')" and
      cu: "cur s' = ''51c1426e''"
      by (simp add: session_setup_result start_def)
    from notebook_fails_in_setup [OF st] st cu show ?thesis
      by (simp add: establish_session_def run_all_def finish_def)
  qed
  from iff below unreachable show ?thesis by blast
qed

text \<open>
  C1 at the catalog server reached at the default address: with version 2.4.9 the run
  ends at the assertion after two calls, with version 2.5.0 the session is established,
  and at an address where no server answers the constructor's error ends the run.
\<close>

theorem C1_session_establishment_witness:
  "b_GraphDataScience gds_backend (NEO4J_URI Map.empty) (NEO4J_AUTH Map.empty) (NEO4J_DB Map.empty)
      (demo_server (ServerVersion 2 4 9)) =
     (Inr (Session ''bolt://localhost:7687'' None ''neo4j''), demo_server (ServerVersion 2 4 9)) \<and>
   b_server_version gds_backend (Session ''bolt://localhost:7687'' None ''neo4j'')
      (demo_server (ServerVersion 2 4 9)) =
     (Inr (ServerVersion 2 4 9), demo_server (ServerVersion 2 4 9)) \<and>
   \<not> sv_ge (ServerVersion 2 4 9) (ServerVersion 2 5 0) \<and>
   fst (run_all gds_backend Map.empty (demo_server (ServerVersion 2 4 9))) =
     Failed ''3c2a8de1'' AssertionError \<and>
   calls (trace (snd (run_all gds_backend Map.empty (demo_server (ServerVersion 2 4 9))))) =
     [GraphDataScience ''bolt://localhost:7687'' None ''neo4j'',
      Server_version (Session ''bolt://localhost:7687'' None ''neo4j'')] \<and>
   fst (establish_session gds_backend Map.empty (demo_server (ServerVersion 2 5 0))) = Completed \<and>
   fst (establish_session gds_backend [''NEO4J_URI'' \<mapsto> ''bolt://nowhere:7687'']
          (demo_server (ServerVersion 2 5 0))) =
     Failed ''51c1426e'' (RemoteError ConnectionError)"
proof -
  let ?old = "demo_server (ServerVersion 2 4 9)"
  let ?gds = "Session ''bolt://localhost:7687'' None ''neo4j''"
  have params: "NEO4J_URI Map.empty = ''bolt://localhost:7687''" "NEO4J_AUTH Map.empty = None"
    "NEO4J_DB Map.empty = ''neo4j''"
    by (simp_all add: environ_defs)
  have c: "b_GraphDataScience gds_backend (NEO4J_URI Map.empty) (NEO4J_AUTH Map.empty)
      (NEO4J_DB Map.empty) ?old = (Inr ?gds, ?old)"
    by (simp add: params gds_backend_def srv_GraphDataScience_def demo_server_def)
  have v: "b_server_version gds_backend ?gds ?old = (Inr (ServerVersion 2 4 9), ?old)"
    by (simp add: gds_backend_def srv_server_version_def demo_server_def)
  have lt: "\<not> sv_ge (ServerVersion 2 4 9) (ServerVersion 2 5 0)"
    by (simp add: sv_ge_def)
  have new: "fst (establish_session gds_backend Map.empty (demo_server (ServerVersion 2 5 0))) =
     Completed"
    by (simp add: run_defs)
  have nowhere: "fst (establish_session gds_backend [''NEO4J_URI'' \<mapsto> ''bolt://nowhere:7687'']
          (demo_server (ServerVersion 2 5 0))) = Failed ''51c1426e'' (RemoteError ConnectionError)"
    by (simp add: run_defs)
  from C1_session_establishment [of gds_backend Map.empty ?old] c v lt
  have "fst (run_all gds_backend Map.empty ?old) = Failed ''3c2a8de1'' AssertionError \<and>
        calls (trace (snd (run_all gds_backend Map.empty ?old))) =
          [GraphDataScience (NEO4J_URI Map.empty) (NEO4J_AUTH Map.empty) (NEO4J_DB Map.empty),
           Server_version ?gds]"
    by blast
  with c v lt new nowhere show ?thesis by (simp add: params)
qed

text \<open>
  On the catalog server the two conditions are those of the specification: the target
  is reachable and the reported version is at least 2.5.0.
\<close>

lemma catalog_session_establishment:
  "fst (establish_session gds_backend env srv) = Completed \<longleftrightarrow>
     reachable_at srv (NEO4J_URI env) \<and> sv_ge (version srv) (ServerVersion 2 5 0)"
  by (simp add: establish_session_def finish_def start_def session_setup_result gds_backend_def
      srv_GraphDataScience_def srv_server_version_def)

subsection \<open>The random seeds the notebook passes\<close>

text \<open>
  The keyword arguments of the embedding step (cell 5e254efe) carry seed 41 whatever
  labels the graph reports, and those of the training call (cell 89b8ad98) carry seed 42.
\<close>

lemma hashgnn_seed: "map_of (hashgnn_kwargs ls) ''randomSeed'' = Some (PInt 41)"
  by (simp add: hashgnn_kwargs_def)

lemma train_seed: "map_of train_kwargs ''randomSeed'' = Some (PInt 42)"
  by (simp add: train_kwargs_def)

subsection \<open>The example graph and the release calls, on the catalog of the specification\<close>

text \<open>
  C4: on the catalog server, once the loader cell 156843c3 has returned a graph handle,
  the handle's node labels are exactly \<open>Movie\<close>, \<open>UnclassifiedMovie\<close>, \<open>Actor\<close> and
  \<open>Director\<close>, every one of them has a property set, and the property \<open>genre\<close>
  is in the property set of \<open>Movie\<close> and of no other label.
\<close>

theorem C4_imdb_labels_and_properties:
  assumes "cell_156843c3 gds_backend gds s = (Inr G, s')"
  shows "\<exists>ls ps.
           fst (node_labels gds_backend G s') = Inr ls \<and>
           set ls = {''Movie'', ''UnclassifiedMovie'', ''Actor'', ''Director''} \<and>
           fst (node_properties gds_backend G s') = Inr ps \<and>
           (\<forall>l \<in> set ls. \<exists>props. map_of ps l = Some props \<and>
              (''genre'' \<in> set props \<longleftrightarrow> l = ''Movie''))"
proof -
  from assms have G: "G = Graph ''imdb''" and g: "graphs (server s') ''imdb'' = Some imdb_graph"
    by (auto simp: cell_156843c3_def load_imdb_def remote_def gds_backend_def srv_load_imdb_def
        split: prod.splits sum.splits)
  have labels: "fst (node_labels gds_backend G s') = Inr (g_labels imdb_graph)"
    using G g
    by (simp add: node_labels_def remote_def gds_backend_def srv_node_labels_def with_graph_def)
  have props: "fst (node_properties gds_backend G s') = Inr (g_properties imdb_graph)"
    using G g
    by (simp add: node_properties_def remote_def gds_backend_def srv_node_properties_def
        with_graph_def)
  have set: "set (g_labels imdb_graph) = {''Movie'', ''UnclassifiedMovie'', ''Actor'', ''Director''}"
    by (auto simp: imdb_graph_def)
  have only: "\<forall>l \<in> set (g_labels imdb_graph).
      \<exists>props. map_of (g_properties imdb_graph) l = Some props \<and>
        (''genre'' \<in> set props \<longleftrightarrow> l = ''Movie'')"
    by (simp add: imdb_graph_def)
  from labels props set only show ?thesis by blast
qed

text \<open>C4 at the catalog server of version 2.5.0 with an empty catalog.\<close>

theorem C4_imdb_labels_and_properties_witness:
  "fst (cell_156843c3 gds_backend (Session ''bolt://localhost:7687'' None ''neo4j'')
          (start (demo_server (ServerVersion 2 5 0)))) = Inr (Graph ''imdb'') \<and>
   fst (node_labels gds_backend (Graph ''imdb'')
          (snd (cell_156843c3 gds_backend (Session ''bolt://localhost:7687'' None ''neo4j'')
                  (start (demo_server (ServerVersion 2 5 0)))))) =
     Inr [''Movie'', ''UnclassifiedMovie'', ''Actor'', ''Director''] \<and>
   fst (node_properties gds_backend (Graph ''imdb'')
          (snd (cell_156843c3 gds_backend (Session ''bolt://localhost:7687'' None ''neo4j'')
                  (start (demo_server (ServerVersion 2 5 0)))))) =
     Inr [(''Movie'', [''plot_keywords'', ''genre'']),
          (''UnclassifiedMovie'', [''plot_keywords'']),
          (''Actor'', [''plot_keywords'']),
          (''Director'', [''plot_keywords''])]"
proof -
  let ?gds = "Session ''bolt://localhost:7687'' None ''neo4j''"
  let ?s = "start (demo_server (ServerVersion 2 5 0))"
  have ret: "fst (cell_156843c3 gds_backend ?gds ?s) = Inr (Graph ''imdb'')"
    by (simp add: cell_156843c3_def load_imdb_def remote_def gds_backend_def srv_load_imdb_def)
  then have run: "cell_156843c3 gds_backend ?gds ?s =
     (Inr (Graph ''imdb''), snd (cell_156843c3 gds_backend ?gds ?s))"
    by (simp add: prod_eq_iff)
  have labels: "fst (node_labels gds_backend (Graph ''imdb'')
          (snd (cell_156843c3 gds_backend ?gds ?s))) =
     Inr [''Movie'', ''UnclassifiedMovie'', ''Actor'', ''Director'']"
    by (simp add: cell_156843c3_def load_imdb_def node_labels_def remote_def gds_backend_def
        srv_load_imdb_def srv_node_labels_def with_graph_def start_def imdb_graph_def)
  have props: "fst (node_properties gds_backend (Graph ''imdb'')
          (snd (cell_156843c3 gds_backend ?gds ?s))) =
     Inr [(''Movie'', [''plot_keywords'', ''genre'']),
          (''UnclassifiedMovie'', [''plot_keywords'']),
          (''Actor'', [''plot_keywords'']),
          (''Director'', [''plot_keywords''])]"
    by (simp add: cell_156843c3_def load_imdb_def node_properties_def remote_def gds_backend_def
        srv_load_imdb_def srv_node_properties_def with_graph_def start_def imdb_graph_def)
  from C4_imdb_labels_and_properties [OF run] obtain ls where
    "fst (node_labels gds_backend (Graph ''imdb'')
       (snd (cell_156843c3 gds_backend ?gds ?s))) = Inr ls"
    by blast
  with ret labels props show ?thesis by blast
qed

text \<open>A handle whose name the catalog does not hold: every call on it reports that.\<close>

lemma graph_not_found:
  assumes "graphs (server s) n = None"
  shows "fst (graph_str gds_backend (Graph n) s) = Inl (RemoteError (ResourceNotFound n))"
    and "fst (node_labels gds_backend (Graph n) s) = Inl (RemoteError (ResourceNotFound n))"
    and "fst (relationship_types gds_backend (Graph n) s) = Inl (RemoteError (ResourceNotFound n))"
    and "fst (node_properties gds_backend (Graph n) s) = Inl (RemoteError (ResourceNotFound n))"
  using assms
  by (simp_all add: graph_str_def node_labels_def relationship_types_def node_properties_def
      remote_def gds_backend_def srv_graph_str_def srv_node_labels_def srv_relationship_types_def
      srv_node_properties_def with_graph_def)

lemma pipeline_not_found:
  assumes "pipelines (server s) n = None"
  shows "fst (configureSplit gds_backend (NCPipeline n) kw s) =
           Inl (RemoteError (ResourceNotFound n))"
    and "fst (addNodeProperty gds_backend (NCPipeline n) a kw s) =
           Inl (RemoteError (ResourceNotFound n))"
    and "fst (selectFeatures gds_backend (NCPipeline n) fs s) =
           Inl (RemoteError (ResourceNotFound n))"
    and "fst (addLogisticRegression gds_backend (NCPipeline n) kw s) =
           Inl (RemoteError (ResourceNotFound n))"
    and "fst (addRandomForest gds_backend (NCPipeline n) kw s) =
           Inl (RemoteError (ResourceNotFound n))"
    and "fst (train gds_backend (NCPipeline n) G kw s) = Inl (RemoteError (ResourceNotFound n))"
  using assms
  by (simp_all add: configureSplit_def addNodeProperty_def selectFeatures_def
      addLogisticRegression_def addRandomForest_def train_def remote_def gds_backend_def
      srv_configureSplit_def srv_addNodeProperty_def srv_selectFeatures_def
      srv_addLogisticRegression_def srv_addRandomForest_def srv_train_def update_pipeline_def
      with_pipeline_def)

lemma model_not_found:
  assumes "models (server s) n = None"
  shows "fst (metrics gds_backend (NCModel n) s) = Inl (RemoteError (ResourceNotFound n))"
    and "fst (best_parameters gds_backend (NCModel n) s) = Inl (RemoteError (ResourceNotFound n))"
    and "fst (predict_stream gds_backend (NCModel n) G kw s) =
           Inl (RemoteError (ResourceNotFound n))"
  using assms
  by (simp_all add: metrics_def best_parameters_def predict_stream_def remote_def
      gds_backend_def srv_metrics_def srv_best_parameters_def srv_predict_stream_def
      with_model_def)

text \<open>The three release cells: what each removes from the catalog and what it keeps.\<close>

lemma cell_9241d9ff_catalog:
  assumes "cell_9241d9ff gds_backend (Graph g) s = (Inr u, s')"
  shows "graphs (server s') g = None"
  using assms
  by (auto simp: cell_9241d9ff_def graph_drop_def py_defs gds_backend_def srv_graph_drop_def
      with_graph_def split: prod.splits sum.splits option.splits)

lemma cell_94b96625_catalog:
  assumes "cell_94b96625 gds_backend (NCPipeline p) s = (Inr u, s')"
  shows "pipelines (server s') p = None" and "graphs (server s') = graphs (server s)"
  using assms
  by (auto simp: cell_94b96625_def pipeline_drop_def py_defs gds_backend_def
      srv_pipeline_drop_def with_pipeline_def split: prod.splits sum.splits option.splits)

lemma cell_a85e1799_catalog:
  assumes "cell_a85e1799 gds_backend (NCModel m) s = (Inr u, s')"
  shows "models (server s') m = None" and "graphs (server s') = graphs (server s)"
    and "pipelines (server s') = pipelines (server s)"
  using assms
  by (auto simp: cell_a85e1799_def model_drop_def py_defs gds_backend_def srv_model_drop_def
      with_model_def split: prod.splits sum.splits option.splits)

lemma cleaning_up_catalog:
  assumes "cleaning_up gds_backend (Graph g) (NCPipeline p) (NCModel m) s = (Inr u, s')"
  shows "graphs (server s') g = None \<and> pipelines (server s') p = None \<and>
         models (server s') m = None"
proof -
  from assms obtain u1 s1 u2 s2 where
    c1: "cell_9241d9ff gds_backend (Graph g) (s\<lparr>cur := ''9241d9ff''\<rparr>) = (Inr u1, s1)" and
    c2: "cell_94b96625 gds_backend (NCPipeline p) (s1\<lparr>cur := ''94b96625''\<rparr>) = (Inr u2, s2)" and
    c3: "cell_a85e1799 gds_backend (NCModel m) (s2\<lparr>cur := ''a85e1799''\<rparr>) = (Inr u, s')"
    unfolding cleaning_up_def in_cell_def by (elim py_bind_InrE) blast
  from cell_9241d9ff_catalog [OF c1] have "graphs (server s1) g = None" .
  with cell_94b96625_catalog [OF c2] have "graphs (server s2) g = None"
    "pipelines (server s2) p = None" by simp_all
  with cell_a85e1799_catalog [OF c3] show ?thesis by simp
qed

text \<open>
  C9: on the catalog server, after the release cell of a handle has completed, every
  later call on that handle reports "resource not found" under the handle's name: the
  four introspection calls of the graph, the configuration and training calls of the
  pipeline, and the two accessors and the streamed prediction of the model.  The same
  holds for all three handles once the three release cells 9241d9ff, 94b96625 and
  a85e1799 have run one after the other.
\<close>

theorem C9_released_handles_not_found:
  "(cell_9241d9ff gds_backend (Graph g) s = (Inr u, s') \<or>
    cleaning_up gds_backend (Graph g) pipe model s = (Inr u, s') \<longrightarrow>
      fst (graph_str gds_backend (Graph g) s') = Inl (RemoteError (ResourceNotFound g)) \<and>
      fst (node_labels gds_backend (Graph g) s') = Inl (RemoteError (ResourceNotFound g)) \<and>
      fst (relationship_types gds_backend (Graph g) s') = Inl (RemoteError (ResourceNotFound g)) \<and>
      fst (node_properties gds_backend (Graph g) s') = Inl (RemoteError (ResourceNotFound g))) \<and>
   (cell_94b96625 gds_backend (NCPipeline p) s = (Inr u, s') \<or>
    cleaning_up gds_backend G (NCPipeline p) model s = (Inr u, s') \<longrightarrow>
      fst (configureSplit gds_backend (NCPipeline p) kw s') =
        Inl (RemoteError (ResourceNotFound p)) \<and>
      fst (addNodeProperty gds_backend (NCPipeline p) a kw s') =
        Inl (RemoteError (ResourceNotFound p)) \<and>
      fst (selectFeatures gds_backend (NCPipeline p) fs s') =
        Inl (RemoteError (ResourceNotFound p)) \<and>
      fst (addLogisticRegression gds_backend (NCPipeline p) kw s') =
        Inl (RemoteError (ResourceNotFound p)) \<and>
      fst (addRandomForest gds_backend (NCPipeline p) kw s') =
        Inl (RemoteError (ResourceNotFound p)) \<and>
      fst (train gds_backend (NCPipeline p) G' kw s') = Inl (RemoteError (ResourceNotFound p))) \<and>
   (cell_a85e1799 gds_backend (NCModel m) s = (Inr u, s') \<or>
    cleaning_up gds_backend G pipe (NCModel m) s = (Inr u, s') \<longrightarrow>
      fst (metrics gds_backend (NCModel m) s') = Inl (RemoteError (ResourceNotFound m)) \<and>
      fst (best_parameters gds_backend (NCModel m) s') = Inl (RemoteError (ResourceNotFound m)) \<and>
      fst (predict_stream gds_backend (NCModel m) G' kw s') =
        Inl (RemoteError (ResourceNotFound m)))"
proof -
  have graph: "graphs (server s') g = None"
    if "cell_9241d9ff gds_backend (Graph g) s = (Inr u, s') \<or>
        cleaning_up gds_backend (Graph g) pipe model s = (Inr u, s')"
    using that cell_9241d9ff_catalog [of g s u s']
      cleaning_up_catalog [of g _ _ s u s']
    by (cases pipe; cases model) auto
  have pipeline: "pipelines (server s') p = None"
    if "cell_94b96625 gds_backend (NCPipeline p) s = (Inr u, s') \<or>
        cleaning_up gds_backend G (NCPipeline p) model s = (Inr u, s')"
    using that cell_94b96625_catalog [of p s u s']
      cleaning_up_catalog [of _ p _ s u s']
    by (cases G; cases model) auto
  have model: "models (server s') m = None"
    if "cell_a85e1799 gds_backend (NCModel m) s = (Inr u, s') \<or>
        cleaning_up gds_backend G pipe (NCModel m) s = (Inr u, s')"
    using that cell_a85e1799_catalog [of m s u s']
      cleaning_up_catalog [of _ _ m s u s']
    by (cases G; cases pipe) auto
  show ?thesis
    using graph_not_found [OF graph] pipeline_not_found [OF pipeline] model_not_found [OF model]
    by blast
qed

text \<open>
  C9 at the server that holds the notebook's graph, pipeline and model: the label query
  succeeds before the release cells, the release cells complete, and afterwards the
  calls on the three handles report that the resource is not found.
\<close>

theorem C9_released_handles_not_found_witness:
  "fst (node_labels gds_backend (Graph ''imdb'') (start loaded_server)) =
     Inr [''Movie'', ''UnclassifiedMovie'', ''Actor'', ''Director''] \<and>
   fst (cleaning_up gds_backend (Graph ''imdb'') (NCPipeline ''genre-predictor-pipe'')
          (NCModel ''genre-predictor-model'') (start loaded_server)) = Inr () \<and>
   fst (node_labels gds_backend (Graph ''imdb'')
          (snd (cleaning_up gds_backend (Graph ''imdb'') (NCPipeline ''genre-predictor-pipe'')
                  (NCModel ''genre-predictor-model'') (start loaded_server)))) =
     Inl (RemoteError (ResourceNotFound ''imdb'')) \<and>
   fst (selectFeatures gds_backend (NCPipeline ''genre-predictor-pipe'') [''embedding'']
          (snd (cleaning_up gds_backend (Graph ''imdb'') (NCPipeline ''genre-predictor-pipe'')
                  (NCModel ''genre-predictor-model'') (start loaded_server)))) =
     Inl (RemoteError (ResourceNotFound ''genre-predictor-pipe'')) \<and>
   fst (metrics gds_backend (NCModel ''genre-predictor-model'')
          (snd (cleaning_up gds_backend (Graph ''imdb'') (NCPipeline ''genre-predictor-pipe'')
                  (NCModel ''genre-predictor-model'') (start loaded_server)))) =
     Inl (RemoteError (ResourceNotFound ''genre-predictor-model''))"
proof -
  let ?G = "Graph ''imdb''"
  let ?pipe = "NCPipeline ''genre-predictor-pipe''"
  let ?model = "NCModel ''genre-predictor-model''"
  let ?end = "snd (cleaning_up gds_backend ?G ?pipe ?model (start loaded_server))"
  have before: "fst (node_labels gds_backend ?G (start loaded_server)) =
     Inr [''Movie'', ''UnclassifiedMovie'', ''Actor'', ''Director'']"
    by (simp add: node_labels_def remote_def gds_backend_def srv_node_labels_def with_graph_def
        start_def loaded_server_def demo_server_def imdb_graph_def)
  have released: "fst (cleaning_up gds_backend ?G ?pipe ?model (start loaded_server)) = Inr ()"
    by (simp add: cleaning_up_def cell_9241d9ff_def cell_94b96625_def cell_a85e1799_def
        graph_drop_def pipeline_drop_def model_drop_def py_defs gds_backend_def
        srv_graph_drop_def srv_pipeline_drop_def srv_model_drop_def
        with_graph_def with_pipeline_def with_model_def
        start_def loaded_server_def demo_server_def)
  then have run: "cleaning_up gds_backend ?G ?pipe ?model (start loaded_server) = (Inr (), ?end)"
    by (simp add: prod_eq_iff)
  note t = C9_released_handles_not_found
    [where g = "''imdb''" and p = "''genre-predictor-pipe''" and m = "''genre-predictor-model''"
       and pipe = ?pipe and model = ?model and G = ?G and s = "start loaded_server"
       and u = "()" and s' = ?end and fs = "[''embedding'']"]
  from t run have
    "fst (node_labels gds_backend ?G ?end) = Inl (RemoteError (ResourceNotFound ''imdb''))"
    "fst (selectFeatures gds_backend ?pipe [''embedding''] ?end) =
       Inl (RemoteError (ResourceNotFound ''genre-predictor-pipe''))"
    "fst (metrics gds_backend ?model ?end) =
       Inl (RemoteError (ResourceNotFound ''genre-predictor-model''))"
    by blast+
  with before released show ?thesis by blast
qed

end
